theory Spec2Isabelle
  imports Main "HOL-Library.Word" "HOL-Library.Multiset"
begin

section \<open>JavaScript strings\<close>

text \<open>
  A JavaScript string is a sequence of UTF-16 code units; \<open>length\<close>, \<open>slice\<close>,
  \<open>endsWith\<close> and \<open>===\<close> all work on code units. A string is therefore a list of
  16-bit words, and an ASCII literal of the source is written \<open>lit ''...''\<close>.
\<close>

type_synonym js_string = "16 word list"

definition lit :: "string \<Rightarrow> js_string" where
  "lit s = map (\<lambda>c. of_nat (of_char c)) s"

text \<open>
  \<open>String.prototype.trim\<close> removes the code units of WhiteSpace and LineTerminator
  (ECMAScript: TAB, VT, FF, SP, NBSP, ZWNBSP, the Unicode space separators, LF, CR, LS, PS)
  from both ends.
\<close>

definition isWhiteSpace :: "16 word \<Rightarrow> bool" where
  "isWhiteSpace u =
     (u \<in> {0x09, 0x0A, 0x0B, 0x0C, 0x0D, 0x20, 0xA0, 0x1680,
           0x2028, 0x2029, 0x202F, 0x205F, 0x3000, 0xFEFF}
      \<or> (0x2000 \<le> u \<and> u \<le> 0x200A))"

definition trim :: "js_string \<Rightarrow> js_string" where
  "trim s = rev (dropWhile isWhiteSpace (rev (dropWhile isWhiteSpace s)))"

text \<open>\<open>s.endsWith('.')\<close> and \<open>s.slice(0, -1)\<close>, \<open>s.slice(0, n)\<close>.\<close>

definition endsWithPeriod :: "js_string \<Rightarrow> bool" where
  "endsWithPeriod s = (s \<noteq> [] \<and> last s = 0x2E)"

definition slice_to :: "nat \<Rightarrow> js_string \<Rightarrow> js_string" where
  "slice_to n s = take n s"

definition slice_drop_last :: "js_string \<Rightarrow> js_string" where
  "slice_drop_last s = butlast s"

text \<open>Truthiness of an optional string: \<open>undefined\<close>, \<open>null\<close> and \<open>''\<close> are falsy.\<close>

fun truthy :: "js_string option \<Rightarrow> bool" where
  "truthy None = False"
| "truthy (Some s) = (s \<noteq> [])"


section \<open>The aspect enumeration in the presentation layer\<close>

text \<open>\<open>aspectOrder\<close> of Chatbot.jsx.\<close>

definition aspectOrder :: "js_string list" where
  "aspectOrder =
     [lit ''Economic Stability'',
      lit ''Defense & Strategic Security'',
      lit ''Healthcare & Biological Readiness'',
      lit ''Cyber Resilience & Digital Infrastructure'',
      lit ''Demographic & Social Stability'',
      lit ''Energy Security'',
      lit ''Debt & Fiscal Sustainability'']"

text \<open>\<open>DEFAULT_ASPECTS\<close> of DashboardPage.jsx.\<close>

definition DEFAULT_ASPECTS :: "js_string list" where
  "DEFAULT_ASPECTS =
     [lit ''Economic Stability'',
      lit ''Defense & Strategic Security'',
      lit ''Healthcare & Biological Readiness'',
      lit ''Cyber Resilience & Digital Infrastructure'',
      lit ''Demographic & Social Stability'',
      lit ''Energy Security'',
      lit ''Debt & Fiscal Sustainability'']"

text \<open>\<open>aspectOrder\<close> of Heatmap.jsx.\<close>

definition heatmap_aspectOrder :: "js_string list" where
  "heatmap_aspectOrder =
     [lit ''Economic Stability'',
      lit ''Defense & Strategic Security'',
      lit ''Healthcare & Biological Readiness'',
      lit ''Cyber Resilience & Digital Infrastructure'',
      lit ''Demographic & Social Stability'',
      lit ''Energy Security'',
      lit ''Debt & Fiscal Sustainability'']"


section \<open>Objects, Maps and sorting\<close>

text \<open>
  A JavaScript \<open>Map\<close>, and an object with string keys that are not array indices, keeps
  its keys in the order of their first insertion; \<open>Object.entries\<close>, \<open>Map.forEach\<close> and
  \<open>Map.entries\<close> enumerate in that order. Both are association lists with distinct keys:
  \<open>map_of\<close> reads a key and \<open>map_set\<close> writes one, in place when the key is there
  and at the end when it is new.
\<close>

fun map_set :: "'k \<Rightarrow> 'v \<Rightarrow> ('k \<times> 'v) list \<Rightarrow> ('k \<times> 'v) list" where
  "map_set k v [] = [(k, v)]"
| "map_set k v ((k', v') # m) = (if k = k' then (k, v) # m else (k', v') # map_set k v m)"

text \<open>
  \<open>xs.sort((a, b) => key(b) - key(a))\<close> with numeric keys: \<open>Array.prototype.sort\<close> is
  stable, so the result is in descending order of the key and elements with equal keys keep
  their order. \<open>sort_key\<close> is the stable insertion sort of the library.
\<close>

definition sort_desc :: "('a \<Rightarrow> int) \<Rightarrow> 'a list \<Rightarrow> 'a list" where
  "sort_desc key xs = sort_key (\<lambda>x. - key x) xs"


section \<open>The analysis payload\<close>

text \<open>
  One record of the \<open>impacts\<close> list. \<open>delta\<close> and \<open>reason\<close> may be missing
  (\<open>impact.delta || 0\<close>, \<open>if (impact.reason)\<close>); deltas are integers.
\<close>

record impact =
  impact_country :: js_string
  impact_aspect :: js_string
  impact_delta :: "int option"
  impact_reason :: "js_string option"

text \<open>
  The payload of one analysis, with the keys the components read. A key the code guards
  with \<open>?.\<close>, \<open>||\<close> or \<open>!\<close> may be absent.
\<close>

record analysis_data =
  impacts :: "impact list option"
  country_scores :: "(js_string \<times> int) list option"
  baseline_country_scores :: "(js_string \<times> int) list option"
  aspect_scores :: "(js_string \<times> (js_string \<times> int) list) list option"
  baseline_aspect_scores :: "(js_string \<times> (js_string \<times> int) list) list option"
  aspect_deltas :: "(js_string \<times> (js_string \<times> int) list) list option"
  aspect_reasons :: "(js_string \<times> (js_string \<times> js_string) list) list option"
  analysis :: "js_string option"


section \<open>JavaScript numbers\<close>

text \<open>
  A JavaScript number is an IEEE-754 double, and \<open>+\<close> gives the exact sum rounded to the
  nearest double, ties to the even mantissa. The deltas of the payload are integers. Every
  integer \<open>n\<close> with \<open>\<bar>n\<bar> \<le> 2^53\<close> is a double, so a sum of two such integers is the
  integer sum as long as that is within \<open>2^53\<close> again. Between \<open>2^53\<close> and \<open>2^54\<close> the
  doubles are the even integers: an odd sum is halfway between two of them and goes to the
  one that is a multiple of 4 (\<open>2^53 + 1\<close> gives \<open>2^53\<close>). The model follows a number that
  far: a number is \<open>Some n\<close>, the double that equals the integer \<open>n\<close>, or \<open>None\<close>, a
  double the model does not follow (beyond \<open>2^54\<close>, infinite, or not a number).
\<close>

type_synonym js_number = "int option"

text \<open>The double of an integer of the payload.\<close>

definition js_number_of :: "int \<Rightarrow> js_number" where
  "js_number_of n = (if \<bar>n\<bar> \<le> 2 ^ 53 then Some n else None)"

definition round_even :: "int \<Rightarrow> int" where
  "round_even s = (if even s then s else if s mod 4 = 1 then s - 1 else s + 1)"

text \<open>\<open>x + y\<close> on numbers.\<close>

definition js_add :: "js_number \<Rightarrow> js_number \<Rightarrow> js_number" where
  "js_add x y =
     (case x of
        None \<Rightarrow> None
      | Some a \<Rightarrow>
          (case y of
             None \<Rightarrow> None
           | Some b \<Rightarrow>
               if \<bar>a + b\<bar> \<le> 2 ^ 53 then Some (a + b)
               else if \<bar>a + b\<bar> \<le> 2 ^ 54 then Some (round_even (a + b))
               else None))"

text \<open>\<open>Math.abs(x)\<close>.\<close>

definition js_abs :: "js_number \<Rightarrow> js_number" where
  "js_abs x = map_option abs x"

definition number_value :: "js_number \<Rightarrow> int" where
  "number_value x = (case x of None \<Rightarrow> 0 | Some n \<Rightarrow> n)"

text \<open>
  \<open>xs.sort((a, b) => key(b) - key(a))\<close> with keys that are numbers: the difference of two
  doubles has the sign of the exact difference, so for numbers the model follows the result
  is \<open>sort_desc\<close> by their values. With a key it does not follow, the model does not give
  the order.
\<close>

definition sort_desc_js :: "('a \<Rightarrow> js_number) \<Rightarrow> 'a list \<Rightarrow> 'a list option" where
  "sort_desc_js key xs =
     (if list_all (\<lambda>x. key x \<noteq> None) xs
      then Some (sort_desc (\<lambda>x. number_value (key x)) xs)
      else None)"


section \<open>Chatbot: the impact summary\<close>

text \<open>The value of the inner Map: \<open>{ delta: 0, reasons: new Set() }\<close>.\<close>

record group_data =
  group_delta :: js_number
  group_reasons :: "js_string list"

text \<open>\<open>Set.prototype.add\<close>: a Set keeps insertion order and ignores a value it holds.\<close>

definition set_add :: "'a \<Rightarrow> 'a list \<Rightarrow> 'a list" where
  "set_add x xs = (if x \<in> set xs then xs else xs @ [x])"

text \<open>
  The body of \<open>analysisData.impacts.forEach\<close> in \<open>buildImpactSummary\<close>:
  \<^verbatim>\<open>
      const country = impact.country;
      if (!countryMap.has(country)) {
        countryMap.set(country, new Map());
      }
      const aspectMap = countryMap.get(country);
      const aspect = impact.aspect;
      const existing = aspectMap.get(aspect) || { delta: 0, reasons: new Set() };
      existing.delta += impact.delta || 0;
      if (impact.reason) {
        existing.reasons.add(impact.reason);
      }
      aspectMap.set(aspect, existing);
  \<close>
  \<open>aspectMap\<close> is the Map stored in \<open>countryMap\<close>, so writing to it updates the entry
  of \<open>country\<close> in place.
\<close>

definition delta_or_zero :: "impact \<Rightarrow> int" where
  "delta_or_zero i = (case impact_delta i of None \<Rightarrow> 0 | Some d \<Rightarrow> d)"

definition add_to_group :: "group_data \<Rightarrow> impact \<Rightarrow> group_data" where
  "add_to_group existing i =
     \<lparr>group_delta = js_add (group_delta existing) (js_number_of (delta_or_zero i)),
      group_reasons =
        (case impact_reason i of
           None \<Rightarrow> group_reasons existing
         | Some r \<Rightarrow> if r \<noteq> [] then set_add r (group_reasons existing)
                     else group_reasons existing)\<rparr>"

definition addImpact ::
  "(js_string \<times> (js_string \<times> group_data) list) list \<Rightarrow> impact
     \<Rightarrow> (js_string \<times> (js_string \<times> group_data) list) list" where
  "addImpact countryMap i =
     (let aspectMap = (case map_of countryMap (impact_country i) of None \<Rightarrow> [] | Some m \<Rightarrow> m);
          existing = (case map_of aspectMap (impact_aspect i) of
                        None \<Rightarrow> \<lparr>group_delta = Some 0, group_reasons = []\<rparr>
                      | Some g \<Rightarrow> g)
      in map_set (impact_country i)
           (map_set (impact_aspect i) (add_to_group existing i) aspectMap) countryMap)"

definition groupImpacts ::
  "impact list \<Rightarrow> (js_string \<times> (js_string \<times> group_data) list) list" where
  "groupImpacts imps = foldl addImpact [] imps"

text \<open>\<open>{ aspect, delta: data.delta, reason: Array.from(data.reasons)[0] }\<close>\<close>

record summary_item =
  sum_aspect :: js_string
  sum_delta :: js_number
  sum_reason :: "js_string option"

definition first_reason :: "js_string list \<Rightarrow> js_string option" where
  "first_reason rs = (case rs of [] \<Rightarrow> None | r # _ \<Rightarrow> Some r)"

definition summary_item_of :: "js_string \<times> group_data \<Rightarrow> summary_item" where
  "summary_item_of e =
     \<lparr>sum_aspect = fst e, sum_delta = group_delta (snd e),
      sum_reason = first_reason (group_reasons (snd e))\<rparr>"

text \<open>\<open>{ country, totalImpact, aspects }\<close>, pushed once for each key of \<open>countryMap\<close>.\<close>

record country_summary =
  cs_country :: js_string
  cs_totalImpact :: js_number
  cs_aspects :: "summary_item list"

definition country_summary_of :: "js_string \<times> (js_string \<times> group_data) list \<Rightarrow> country_summary" where
  "country_summary_of e =
     (let aspects = map summary_item_of (snd e);
          totalImpact = foldl (\<lambda>sum item. js_add sum (js_abs (sum_delta item))) (Some 0) aspects
      in \<lparr>cs_country = fst e, cs_totalImpact = totalImpact, cs_aspects = aspects\<rparr>)"

text \<open>\<open>{ country, aspects }\<close> of the result.\<close>

record summary_entry =
  entry_country :: js_string
  entry_aspects :: "summary_item list"

definition summary_entry_of :: "country_summary \<Rightarrow> summary_entry option" where
  "summary_entry_of entry =
     (case sort_desc_js (\<lambda>a. js_abs (sum_delta a)) (cs_aspects entry) of
        None \<Rightarrow> None
      | Some ordered \<Rightarrow>
          Some \<lparr>entry_country = cs_country entry, entry_aspects = take 2 ordered\<rparr>)"

text \<open>
  \<open>buildImpactSummary\<close>: nothing when \<open>impacts\<close> is missing or empty; else the countries in
  descending order of their total absolute delta, each with its two aspects of largest
  absolute delta. The result is \<open>None\<close> when a sort meets a number the model does not
  follow.
\<close>

definition summarize :: "impact list \<Rightarrow> summary_entry list option" where
  "summarize imps =
     (case sort_desc_js cs_totalImpact (map country_summary_of (groupImpacts imps)) of
        None \<Rightarrow> None
      | Some ordered \<Rightarrow> those (map summary_entry_of ordered))"

definition buildImpactSummary :: "analysis_data \<Rightarrow> summary_entry list option" where
  "buildImpactSummary analysisData =
     (case impacts analysisData of
        None \<Rightarrow> Some []
      | Some imps \<Rightarrow> if length imps = 0 then Some [] else summarize imps)"


section \<open>Chatbot: the impact details\<close>

text \<open>
  An entry of the "Aspect changes" list, as \<open>buildImpactDetails\<close> builds it:
  \<open>{ aspect, delta, score, reason }\<close>. \<open>score\<close> is \<open>aspects[aspect]\<close>, which is
  \<open>undefined\<close> when the country's row has no such key; \<open>formatReason\<close> also accepts an
  item without a reason.
\<close>

record aspect_item =
  item_aspect :: js_string
  item_delta :: int
  item_score :: "int option"
  item_reason :: "js_string option"


definition lookup2 :: "('a \<times> ('b \<times> 'c) list) list \<Rightarrow> 'a \<Rightarrow> 'b \<Rightarrow> 'c option" where
  "lookup2 obj k1 k2 = (case map_of obj k1 of None \<Rightarrow> None | Some row \<Rightarrow> map_of row k2)"




section \<open>Chatbot: formatting a reason\<close>

text \<open>
  \<^verbatim>\<open>
  const formatReason = (item) => {
    if (!item.reason || item.reason === 'no significant change') return '';
    let clean = item.reason.trim();
    if (clean.endsWith('.')) clean = clean.slice(0, -1);
    if (clean.length > 160) {
      clean = `${clean.slice(0, 157)}...`;
    }
    return clean;
  };
  \<close>
\<close>

definition formatReason :: "aspect_item \<Rightarrow> js_string" where
  "formatReason item =
     (case item_reason item of
        None \<Rightarrow> []
      | Some reason \<Rightarrow>
          if reason = [] \<or> reason = lit ''no significant change'' then []
          else
            let clean = trim reason;
                clean = (if endsWithPeriod clean then slice_drop_last clean else clean)
            in if length clean > 160 then slice_to 157 clean @ lit ''...'' else clean)"


text \<open>A reason of 161 code units after trimming: 160 times \<open>a\<close>, then a period.\<close>

definition reason_161 :: js_string where
  "reason_161 = replicate 160 0x61 @ [0x2E]"


section \<open>Reading the grouped impacts\<close>

text \<open>The records of a list that hit the pair \<open>(c, a)\<close>, in the order of the list.\<close>

definition records_for :: "js_string \<Rightarrow> js_string \<Rightarrow> impact list \<Rightarrow> impact list" where
  "records_for c a imps = filter (\<lambda>i. impact_country i = c \<and> impact_aspect i = a) imps"

text \<open>
  The first non-empty reason of a list of records, in the words of the specification;
  \<open>None\<close> when every record comes without a reason or with the empty one.
\<close>

fun first_nonempty_reason :: "impact list \<Rightarrow> js_string option" where
  "first_nonempty_reason [] = None"
| "first_nonempty_reason (i # imps) =
     (if truthy (impact_reason i) then impact_reason i else first_nonempty_reason imps)"

text \<open>The group a pair starts from: \<open>{ delta: 0, reasons: new Set() }\<close>.\<close>

definition empty_group :: group_data where
  "empty_group = \<lparr>group_delta = Some 0, group_reasons = []\<rparr>"

text \<open>The keys of \<open>countryMap\<close> and of each of its inner Maps are distinct.\<close>

definition keys_distinct :: "(js_string \<times> (js_string \<times> group_data) list) list \<Rightarrow> bool" where
  "keys_distinct G = (distinct (map fst G) \<and> (\<forall>e \<in> set G. distinct (map fst (snd e))))"



text \<open>What \<open>summary_entry_of\<close> gives where the model follows the numbers.\<close>

definition entry_of :: "country_summary \<Rightarrow> summary_entry" where
  "entry_of entry =
     \<lparr>entry_country = cs_country entry,
      entry_aspects =
        take 2 (sort_desc (\<lambda>a. number_value (js_abs (sum_delta a))) (cs_aspects entry))\<rparr>"

definition followed :: "country_summary \<Rightarrow> bool" where
  "followed entry =
     (cs_totalImpact entry \<noteq> None
      \<and> list_all (\<lambda>a. js_abs (sum_delta a) \<noteq> None) (cs_aspects entry))"


section \<open>Example payloads\<close>

text \<open>A payload that carries an \<open>impacts\<close> list and nothing else.\<close>

definition payload :: "impact list \<Rightarrow> analysis_data" where
  "payload imps =
     \<lparr>impacts = Some imps, country_scores = None, baseline_country_scores = None,
      aspect_scores = None, baseline_aspect_scores = None, aspect_deltas = None,
      aspect_reasons = None, analysis = None\<rparr>"

definition mk_impact :: "string \<Rightarrow> string \<Rightarrow> int \<Rightarrow> string \<Rightarrow> impact" where
  "mk_impact c a d r =
     \<lparr>impact_country = lit c, impact_aspect = lit a, impact_delta = Some d,
      impact_reason = Some (lit r)\<rparr>"

text \<open>Three records for (Japan, Energy Security), the first without a reason, and one for the USA.\<close>

definition example_impacts :: "impact list" where
  "example_impacts =
     [mk_impact ''Japan'' ''Energy Security'' (-3) [],
      mk_impact ''USA'' ''Economic Stability'' (-15) ''Export controls bite.'',
      mk_impact ''Japan'' ''Energy Security'' (-4) ''LNG imports disrupted'',
      mk_impact ''Japan'' ''Energy Security'' 2 ''Reserves released'']"




text \<open>The entry of Japan in the summary of \<open>example_impacts\<close>.\<close>

definition japan_item :: summary_item where
  "japan_item = \<lparr>sum_aspect = lit ''Energy Security'', sum_delta = Some (-5),
                  sum_reason = Some (lit ''LNG imports disrupted'')\<rparr>"

definition japan_entry :: summary_entry where
  "japan_entry = \<lparr>entry_country = lit ''Japan'', entry_aspects = [japan_item]\<rparr>"

text \<open>The summary of \<open>example_impacts\<close>.\<close>

definition example_result :: "summary_entry list" where
  "example_result =
     [\<lparr>entry_country = lit ''USA'',
       entry_aspects = [\<lparr>sum_aspect = lit ''Economic Stability'', sum_delta = Some (-15),
                         sum_reason = Some (lit ''Export controls bite.'')\<rparr>]\<rparr>,
      japan_entry]"











section \<open>Dashboard: ranking the countries\<close>

text \<open>
  \<open>Object.entries(scores).sort((a, b) => b[1] - a[1])\<close>, as \<open>buildRankMap\<close>, \<open>sortedCountries\<close>
  and the bar graph's \<open>sortedEntries\<close> all compute it: the entries of the object, in the
  order of its keys, sorted by descending score. Country totals are integers.
\<close>

definition sortEntries :: "(js_string \<times> int) list \<Rightarrow> (js_string \<times> int) list" where
  "sortEntries scores = sort_desc snd scores"

text \<open>
  \<^verbatim>\<open>
  const buildRankMap = (scores) => {
    return Object.entries(scores)
      .sort((a, b) => b[1] - a[1])
      .reduce((acc, [country], index) => {
        acc[country] = index + 1;
        return acc;
      }, {});
  };
  \<close>
\<close>

definition buildRankMap :: "(js_string \<times> int) list \<Rightarrow> (js_string \<times> int) list" where
  "buildRankMap scores =
     foldl (\<lambda>acc ie. map_set (fst (snd ie)) (int (fst ie) + 1) acc) []
       (enumerate 0 (sortEntries scores))"

text \<open>
  \<^verbatim>\<open>
  const countryScores = analysisData?.country_scores || {};
  const hasData = Object.keys(countryScores).length > 0;
  const sortedCountries = useMemo(() => {
    if (!hasData) return [];
    return Object.entries(countryScores)
      .sort((a, b) => b[1] - a[1])
      .map(([country]) => country);
  }, [countryScores, hasData]);
  \<close>
\<close>

definition countryScores :: "analysis_data option \<Rightarrow> (js_string \<times> int) list" where
  "countryScores analysisData =
     (case analysisData of
        None \<Rightarrow> []
      | Some d \<Rightarrow> (case country_scores d of None \<Rightarrow> [] | Some s \<Rightarrow> s))"

definition hasData :: "analysis_data option \<Rightarrow> bool" where
  "hasData analysisData = (length (countryScores analysisData) > 0)"

definition sortedCountries :: "analysis_data option \<Rightarrow> js_string list" where
  "sortedCountries analysisData =
     (if \<not> hasData analysisData then []
      else map fst (sortEntries (countryScores analysisData)))"

text \<open>Two payloads with the same score for the same two countries, listed in opposite orders.\<close>

definition scores_payload :: "(js_string \<times> int) list \<Rightarrow> analysis_data" where
  "scores_payload scores =
     \<lparr>impacts = None, country_scores = Some scores, baseline_country_scores = None,
      aspect_scores = None, baseline_aspect_scores = None, aspect_deltas = None,
      aspect_reasons = None, analysis = None\<rparr>"

definition tie_scores_1 :: "(js_string \<times> int) list" where
  "tie_scores_1 = [(lit ''India'', 61), (lit ''Japan'', 72), (lit ''USA'', 72)]"

definition tie_scores_2 :: "(js_string \<times> int) list" where
  "tie_scores_2 = [(lit ''USA'', 72), (lit ''Japan'', 72), (lit ''India'', 61)]"


section \<open>Chatbot: the message list\<close>

text \<open>
  The id of a message is the string \<open>'welcome'\<close>, a string made by \<open>createMessageId\<close>, or
  the number the history store assigned (the code tests \<open>typeof id === 'number'\<close> for
  "a database ID"). \<open>===\<close> never identifies a string with a number.
\<close>

datatype message_id = StrId js_string | NumId int

datatype timestamp = Millis int | Stamp js_string

record message =
  msg_id :: message_id
  msg_text :: js_string
  msg_sender :: js_string
  msg_scenario :: "js_string option"
  msg_isWelcome :: "bool option"
  msg_pending :: "bool option"
  msg_retryable :: "bool option"
  msg_analysisData :: "analysis_data option"
  msg_createdAt :: "timestamp option"

text \<open>The requests the component sends through \<open>utils/api\<close>, in the order it sends them.\<close>

datatype api_call =
    GetChatHistory
  | AddChatMessage js_string js_string js_string "analysis_data option"
  | DeleteChatMessage int
  | AnalyzeScenario js_string

text \<open>The state of the component that the handlers read and write.\<close>

record chat_state =
  messages :: "message list"
  input :: js_string
  isLoading :: bool
  calls :: "api_call list"

definition welcomeMessage :: message where
  "welcomeMessage =
     \<lparr>msg_id = StrId (lit ''welcome''), msg_text = lit ''Welcome to ResiliTrack AI.'',
      msg_sender = lit ''bot'', msg_scenario = None, msg_isWelcome = Some True,
      msg_pending = None, msg_retryable = None, msg_analysisData = None,
      msg_createdAt = None\<rparr>"

definition defaultMessages :: "message list" where
  "defaultMessages = [welcomeMessage]"

definition initial_state :: chat_state where
  "initial_state = \<lparr>messages = defaultMessages, input = [], isLoading = False, calls = []\<rparr>"

text \<open>
  \<open>`${Date.now()}-${Math.random().toString(16).slice(2)}`\<close>: the two pieces are what the
  clock and the random generator print.
\<close>

definition createMessageId :: "js_string \<Rightarrow> js_string \<Rightarrow> message_id" where
  "createMessageId now rand = StrId (now @ lit ''-'' @ rand)"

fun id_truthy :: "message_id \<Rightarrow> bool" where
  "id_truthy (StrId s) = (s \<noteq> [])"
| "id_truthy (NumId n) = (n \<noteq> 0)"

text \<open>One turn of the stored history, as \<open>getChatHistory\<close> returns it.\<close>

record history_item =
  h_id :: int
  h_message :: js_string
  h_sender :: js_string
  h_scenario :: "js_string option"
  h_analysis_data :: "analysis_data option"
  h_created_at :: "js_string option"

definition mapped :: "history_item \<Rightarrow> message" where
  "mapped item =
     \<lparr>msg_id = NumId (h_id item), msg_text = h_message item, msg_sender = h_sender item,
      msg_scenario = h_scenario item, msg_isWelcome = None, msg_pending = None,
      msg_retryable = None, msg_analysisData = h_analysis_data item,
      msg_createdAt = map_option Stamp (h_created_at item)\<rparr>"

text \<open>
  \<open>refreshHistory\<close> sends \<open>getChatHistory\<close>; when the answer is there (\<open>None\<close>: the
  request failed, the \<open>catch\<close> branch) it replaces the list.
\<close>

definition refreshHistory_request :: "chat_state \<Rightarrow> chat_state" where
  "refreshHistory_request st = st\<lparr>calls := calls st @ [GetChatHistory]\<rparr>"

definition refreshHistory :: "history_item list option \<Rightarrow> chat_state \<Rightarrow> chat_state" where
  "refreshHistory response st =
     (case response of
        None \<Rightarrow> st\<lparr>messages := defaultMessages\<rparr>
      | Some history \<Rightarrow>
          if length history = 0 then st\<lparr>messages := defaultMessages\<rparr>
          else st\<lparr>messages := defaultMessages @ map mapped history\<rparr>)"

definition handleClear :: "chat_state \<Rightarrow> chat_state" where
  "handleClear st = st\<lparr>messages := defaultMessages\<rparr>"

definition setInput :: "js_string \<Rightarrow> chat_state \<Rightarrow> chat_state" where
  "setInput v st = st\<lparr>input := v\<rparr>"

text \<open>
  \<open>runScenario\<close> up to its \<open>await\<close>: the old bot message, if one is given, is deleted in
  the store when its id is a number and filtered out of the list by its id, and the pending
  message is appended in the same update; then the analysis is requested.
\<close>

definition pendingMessage :: "message_id \<Rightarrow> int \<Rightarrow> js_string \<Rightarrow> message" where
  "pendingMessage pendingId now scenarioText =
     \<lparr>msg_id = pendingId,
      msg_text = lit ''Analyzing scenario... preparing resilience update.'',
      msg_sender = lit ''bot'', msg_scenario = Some scenarioText, msg_isWelcome = None,
      msg_pending = Some True, msg_retryable = None, msg_analysisData = None,
      msg_createdAt = Some (Millis now)\<rparr>"

definition runScenario ::
  "message_id \<Rightarrow> int \<Rightarrow> js_string \<Rightarrow> message_id option \<Rightarrow> chat_state \<Rightarrow> chat_state" where
  "runScenario pendingId now scenarioText botMessageIdToDelete st =
     (let deletion = (case botMessageIdToDelete of
                        Some (NumId n) \<Rightarrow> if n \<noteq> 0 then [DeleteChatMessage n] else []
                      | _ \<Rightarrow> []);
          updated = (case botMessageIdToDelete of
                       None \<Rightarrow> messages st
                     | Some t \<Rightarrow> if id_truthy t
                                 then filter (\<lambda>message. msg_id message \<noteq> t) (messages st)
                                 else messages st)
      in st\<lparr>isLoading := True,
            messages := updated @ [pendingMessage pendingId now scenarioText],
            calls := calls st @ deletion @ [AnalyzeScenario scenarioText]\<rparr>)"

text \<open>The analysis came back: the pending message gets the text and the payload.\<close>

definition runScenario_resolved ::
  "message_id \<Rightarrow> js_string \<Rightarrow> analysis_data \<Rightarrow> chat_state \<Rightarrow> chat_state" where
  "runScenario_resolved pendingId scenarioText result st =
     (let fallback = lit ''Analysis completed. Check the charts for results.'';
          finalText = (case analysis result of
                         None \<Rightarrow> fallback
                       | Some a \<Rightarrow> if a = [] then fallback else a)
      in st\<lparr>messages :=
              map (\<lambda>message. if msg_id message = pendingId
                             then message\<lparr>msg_text := finalText,
                                          msg_analysisData := Some result,
                                          msg_pending := Some False\<rparr>
                             else message) (messages st),
            calls := calls st @ [AddChatMessage finalText (lit ''bot'') scenarioText (Some result)],
            isLoading := False\<rparr>)"

text \<open>The analysis failed: the pending message becomes a retryable error message.\<close>

definition runScenario_rejected :: "message_id \<Rightarrow> js_string \<Rightarrow> chat_state \<Rightarrow> chat_state" where
  "runScenario_rejected pendingId scenarioText st =
     (let errorText =
            lit ''Sorry, there was an error analyzing your scenario. Please try again.''
      in st\<lparr>messages :=
              map (\<lambda>message. if msg_id message = pendingId
                             then message\<lparr>msg_text := errorText,
                                          msg_retryable := Some True,
                                          msg_pending := Some False\<rparr>
                             else message) (messages st),
            calls := calls st @ [AddChatMessage errorText (lit ''bot'') scenarioText None],
            isLoading := False\<rparr>)"

text \<open>
  \<open>addChatMessage(...).then((response) => { if (response?.message_id) ... })\<close>: the message
  with the local id takes the id of the store.
\<close>

definition message_id_assigned :: "message_id \<Rightarrow> int option \<Rightarrow> chat_state \<Rightarrow> chat_state" where
  "message_id_assigned localId message_id st =
     (case message_id of
        None \<Rightarrow> st
      | Some n \<Rightarrow>
          if n = 0 then st
          else st\<lparr>messages :=
                    map (\<lambda>message. if msg_id message = localId
                                   then message\<lparr>msg_id := NumId n\<rparr> else message)
                      (messages st)\<rparr>)"

text \<open>
  \<^verbatim>\<open>
    const scenarioText = input.trim();
    if (!scenarioText) return;
    ...
    setMessages((prev) => [...prev, userMessage]);
    addChatMessage({ message: scenarioText, sender: 'user', scenario: scenarioText })...
    setInput('');
    await runScenario(scenarioText);
  \<close>
\<close>

definition userMessage :: "message_id \<Rightarrow> js_string \<Rightarrow> message" where
  "userMessage userMessageId scenarioText =
     \<lparr>msg_id = userMessageId, msg_text = scenarioText, msg_sender = lit ''user'',
      msg_scenario = Some scenarioText, msg_isWelcome = None, msg_pending = None,
      msg_retryable = None, msg_analysisData = None, msg_createdAt = None\<rparr>"

definition handleSendMessage ::
  "message_id \<Rightarrow> message_id \<Rightarrow> int \<Rightarrow> chat_state \<Rightarrow> chat_state" where
  "handleSendMessage userMessageId pendingId now st =
     (let scenarioText = trim (input st)
      in if scenarioText = [] then st
         else runScenario pendingId now scenarioText None
                (st\<lparr>messages := messages st @ [userMessage userMessageId scenarioText],
                    calls := calls st @
                      [AddChatMessage scenarioText (lit ''user'') scenarioText None],
                    input := []\<rparr>))"

text \<open>
  \<^verbatim>\<open>
  const findLastBotMessageForScenario = (scenarioText, list) => {
    if (!scenarioText) return null;
    const source = list || messages;
    return [...source].reverse()
      .find((message) => message.sender === 'bot' && message.scenario === scenarioText) || null;
  };
  \<close>
\<close>

definition findLastBotMessageForScenario ::
  "js_string option \<Rightarrow> message list \<Rightarrow> message option" where
  "findLastBotMessageForScenario scenarioText list =
     (if \<not> truthy scenarioText then None
      else find (\<lambda>message. msg_sender message = lit ''bot''
                           \<and> msg_scenario message = scenarioText) (rev list))"

text \<open>
  \<open>handleRegenerate\<close> is the click handler of a rendered message; \<open>shown\<close> and \<open>loading\<close>
  are the \<open>messages\<close> and \<open>isLoading\<close> of the render the handler was created in.
\<close>

definition handleRegenerate ::
  "message list \<Rightarrow> bool \<Rightarrow> js_string option \<Rightarrow> message_id \<Rightarrow> js_string
     \<Rightarrow> message_id \<Rightarrow> int \<Rightarrow> chat_state \<Rightarrow> chat_state" where
  "handleRegenerate shown loading scenarioText messageId sender pendingId now st =
     (case scenarioText of
        None \<Rightarrow> st
      | Some text \<Rightarrow>
          if text = [] \<or> loading then st
          else if sender = lit ''user'' then
            (case findLastBotMessageForScenario scenarioText shown of
               None \<Rightarrow> st
             | Some lastBotMessage \<Rightarrow>
                 runScenario pendingId now text (Some (msg_id lastBotMessage)) st)
          else runScenario pendingId now text (Some messageId) st)"

text \<open>
  The states the component can reach: each rule is one handler or one continuation of a
  request, run as a whole (React applies the state updates one after the other). The local
  ids are made by \<open>createMessageId\<close>; a regenerate button belongs to a message of a rendered
  state.
\<close>

inductive reachable :: "chat_state \<Rightarrow> bool" where
  mount: "reachable initial_state"
| typing: "reachable st \<Longrightarrow> reachable (setInput v st)"
| history_request: "reachable st \<Longrightarrow> reachable (refreshHistory_request st)"
| history: "reachable st \<Longrightarrow> reachable (refreshHistory response st)"
| cleared: "reachable st \<Longrightarrow> reachable (handleClear st)"
| send: "reachable st \<Longrightarrow>
         reachable (handleSendMessage (createMessageId n1 r1) (createMessageId n2 r2) now st)"
| regenerate: "reachable st \<Longrightarrow> reachable shown \<Longrightarrow> message \<in> set (messages shown) \<Longrightarrow>
         reachable (handleRegenerate (messages shown) (isLoading shown) (msg_scenario message)
                      (msg_id message) (msg_sender message) (createMessageId n r) now st)"
| resolved: "reachable st \<Longrightarrow>
         reachable (runScenario_resolved (createMessageId n r) scenarioText result st)"
| rejected: "reachable st \<Longrightarrow>
         reachable (runScenario_rejected (createMessageId n r) scenarioText st)"
| assigned: "reachable st \<Longrightarrow>
         reachable (message_id_assigned (createMessageId n r) message_id st)"

text \<open>The welcome message heads the list, and no other message has its id.\<close>

definition welcome_first :: "message list \<Rightarrow> bool" where
  "welcome_first ms =
     (case ms of
        [] \<Rightarrow> False
      | m # rest \<Rightarrow> m = welcomeMessage \<and> list_all (\<lambda>x. msg_id x \<noteq> StrId (lit ''welcome'')) rest)"

text \<open>A state after one scenario was typed and sent.\<close>

definition sent_state :: chat_state where
  "sent_state =
     handleSendMessage (createMessageId (lit ''1700000000000'') (lit ''8f3a''))
       (createMessageId (lit ''1700000000001'') (lit ''c41''))
       1700000000001 (setInput (lit '' Port strike in Asia '') initial_state)"


section \<open>The aggregator and the analyze operation\<close>

text \<open>
  The aggregator and the service boundary are code of the backend, which is not among the
  sources; they are modelled from the specification (sections 3, 4.1, 4.2 and 6). The wire
  form of their result is the payload the presentation layer reads, so the result is an
  \<open>analysis_data\<close> with every table present. The seven aspects are the literals of
  \<open>aspectOrder\<close>; the enumeration of the ten countries is a parameter.
\<close>

text \<open>Modelled from the spec: the error taxonomy of section 7.\<close>

datatype agg_error = ValidationError | InterpretationError | InvalidReference | EmptyBaseline

text \<open>Modelled from the spec: \<open>clamp(x, 0, 100)\<close> of the AspectScore and the CountryScore.\<close>

definition clamp :: "int \<Rightarrow> int \<Rightarrow> int \<Rightarrow> int" where
  "clamp x lo hi = max lo (min hi x)"

text \<open>
  Modelled from the spec: the baseline table is complete when it has a score for every
  (Country, Aspect) pair, and valid when these scores lie in [0,100].
\<close>

definition complete_baseline ::
  "js_string list \<Rightarrow> (js_string \<times> (js_string \<times> int) list) list \<Rightarrow> bool" where
  "complete_baseline countries baseline =
     list_all (\<lambda>c. list_all (\<lambda>a. lookup2 baseline c a \<noteq> None) aspectOrder) countries"

text \<open>Modelled from the spec: the baseline score of a pair (0 for a pair the table misses).\<close>

definition baseline_score ::
  "(js_string \<times> (js_string \<times> int) list) list \<Rightarrow> js_string \<Rightarrow> js_string \<Rightarrow> int" where
  "baseline_score baseline c a = (case lookup2 baseline c a of None \<Rightarrow> 0 | Some s \<Rightarrow> s)"

text \<open>Modelled from the spec: a BaselineScore is an integer in [0,100], for every pair.\<close>

definition valid_baseline ::
  "js_string list \<Rightarrow> (js_string \<times> (js_string \<times> int) list) list \<Rightarrow> bool" where
  "valid_baseline countries baseline =
     (complete_baseline countries baseline
      \<and> list_all (\<lambda>c. list_all (\<lambda>a. 0 \<le> baseline_score baseline c a
                                    \<and> baseline_score baseline c a \<le> 100) aspectOrder)
           countries)"

text \<open>
  Modelled from the spec: an impact is a valid reference when its country and its aspect are
  in the enumerations. The policy for the others, which the specification leaves to the
  implementer, is taken to be: dropped.
\<close>

definition valid_reference :: "js_string list \<Rightarrow> impact \<Rightarrow> bool" where
  "valid_reference countries i =
     (impact_country i \<in> set countries \<and> impact_aspect i \<in> set aspectOrder)"

text \<open>Modelled from the spec: step 1, the deltas of a (country, aspect) group are summed.\<close>

definition summed_delta :: "impact list \<Rightarrow> js_string \<Rightarrow> js_string \<Rightarrow> int" where
  "summed_delta imps c a = sum_list (map delta_or_zero (records_for c a imps))"

text \<open>
  Modelled from the spec: step 2,
  \<open>scenario_score = clamp(baseline_score + summed_delta, 0, 100)\<close>.
\<close>

definition scenario_score ::
  "(js_string \<times> (js_string \<times> int) list) list \<Rightarrow> impact list \<Rightarrow> js_string \<Rightarrow> js_string \<Rightarrow> int" where
  "scenario_score baseline imps c a =
     clamp (baseline_score baseline c a + summed_delta imps c a) 0 100"

text \<open>
  Modelled from the spec: step 3, the country total is the unweighted mean of the country's
  scores, rounded to the nearest integer and clamped to [0,100]. The mean of seven integers
  is never halfway between two integers, so every rounding rule gives
  \<open>(2 * sum + n) div (2 * n)\<close>.
\<close>

definition round_mean :: "int list \<Rightarrow> int" where
  "round_mean xs =
     (if xs = [] then 0
      else (2 * sum_list xs + int (length xs)) div (2 * int (length xs)))"

text \<open>Modelled from the spec: the CountryScore of a row of AspectScores.\<close>

definition country_total :: "(js_string \<times> int) list \<Rightarrow> int" where
  "country_total row = clamp (round_mean (map snd row)) 0 100"

text \<open>Modelled from the spec: a table over every pair of the enumerations.\<close>

definition table_of ::
  "js_string list \<Rightarrow> (js_string \<Rightarrow> js_string \<Rightarrow> 'a) \<Rightarrow> (js_string \<times> (js_string \<times> 'a) list) list" where
  "table_of countries f = map (\<lambda>c. (c, map (\<lambda>a. (a, f c a)) aspectOrder)) countries"

text \<open>Modelled from the spec: the country totals of a table, country by country.\<close>

definition totals_of :: "(js_string \<times> (js_string \<times> int) list) list \<Rightarrow> (js_string \<times> int) list" where
  "totals_of tbl = map (\<lambda>e. (fst e, country_total (snd e))) tbl"

text \<open>
  Modelled from the spec: \<open>aggregate(baseline, impacts)\<close> of section 4.1, steps 1 to 3,
  with the keys of section 6. It fails with \<open>EmptyBaseline\<close> when the table misses a pair,
  and for nothing else: deltas of any size are clamped. The reason of a pair is the first
  non-empty one (section 9). The ranking of step 4 is what \<open>sortEntries\<close> computes from
  \<open>country_scores\<close>; the summary of step 5 is not modelled.
\<close>

definition aggregate ::
  "js_string list \<Rightarrow> (js_string \<times> (js_string \<times> int) list) list \<Rightarrow> impact list
     \<Rightarrow> agg_error + analysis_data" where
  "aggregate countries baseline imps =
     (if \<not> complete_baseline countries baseline then Inl EmptyBaseline
      else
        let valid = filter (valid_reference countries) imps;
            base = table_of countries (baseline_score baseline);
            scen = table_of countries (scenario_score baseline valid)
        in Inr \<lparr>impacts = Some valid,
                 country_scores = Some (totals_of scen),
                 baseline_country_scores = Some (totals_of base),
                 aspect_scores = Some scen,
                 baseline_aspect_scores = Some base,
                 aspect_deltas = Some (table_of countries (summed_delta valid)),
                 aspect_reasons = Some (table_of countries
                   (\<lambda>c a. case first_nonempty_reason (records_for c a valid) of
                             None \<Rightarrow> [] | Some r \<Rightarrow> r)),
                 analysis = None\<rparr>)"

text \<open>
  Modelled from the spec: the analyze operation of section 6 on \<open>{ headline }\<close>. The
  headline must be non-empty after trimming, else \<open>ValidationError\<close>; when the interpreter
  fails (\<open>None\<close>) the impact list is empty (section 4.2).
\<close>

definition analyze ::
  "js_string list \<Rightarrow> (js_string \<times> (js_string \<times> int) list) list
     \<Rightarrow> (js_string \<Rightarrow> impact list option) \<Rightarrow> js_string \<Rightarrow> agg_error + analysis_data" where
  "analyze countries baseline interpret headline =
     (if trim headline = [] then Inl ValidationError
      else aggregate countries baseline
             (case interpret headline of None \<Rightarrow> [] | Some imps \<Rightarrow> imps))"

text \<open>Every score of a row, and of a table, lies in [0,100].\<close>

definition scores_in_range :: "(js_string \<times> int) list \<Rightarrow> bool" where
  "scores_in_range row = list_all (\<lambda>e. 0 \<le> snd e \<and> snd e \<le> 100) row"

definition table_in_range :: "(js_string \<times> (js_string \<times> int) list) list \<Rightarrow> bool" where
  "table_in_range tbl = list_all (\<lambda>e. scores_in_range (snd e)) tbl"

text \<open>
  Ten countries (the specification names the USA and Japan in its examples, the others
  stand in), a baseline with 70 everywhere but 90 for Japan's energy, and impacts with
  deltas of every size.
\<close>

definition example_countries :: "js_string list" where
  "example_countries =
     [lit ''USA'', lit ''China'', lit ''India'', lit ''Japan'', lit ''Germany'',
      lit ''UK'', lit ''France'', lit ''Brazil'', lit ''Russia'', lit ''South Korea'']"

definition example_baseline :: "(js_string \<times> (js_string \<times> int) list) list" where
  "example_baseline =
     table_of example_countries
       (\<lambda>c a. if c = lit ''Japan'' \<and> a = lit ''Energy Security'' then 90 else 70)"

definition large_impacts :: "impact list" where
  "large_impacts =
     [mk_impact ''USA'' ''Economic Stability'' (-15) ''Export controls bite.'',
      mk_impact ''Japan'' ''Energy Security'' 20 ''Reserves released'',
      mk_impact ''India'' ''Energy Security'' (-1000000) ''Grid collapse'',
      mk_impact ''India'' ''Economic Stability'' 1000000 [],
      mk_impact ''Atlantis'' ''Energy Security'' (-5) ''Sunk'']"

text \<open>An input of the chat box that is white space only: a space, a no-break space, a tab.\<close>

definition blank_input :: js_string where
  "blank_input = [0x20, 0xA0, 0x09]"


section \<open>Properties\<close>

subsection \<open>The three aspect lists\<close>

text \<open>
  C8. The seven aspect strings are the same literals in the same order in the Chatbot's
  \<open>aspectOrder\<close>, the Dashboard's \<open>DEFAULT_ASPECTS\<close> and the Heatmap's \<open>aspectOrder\<close>:
  the three lists have seven elements and agree position by position.
\<close>

theorem aspect_lists_agree:
  "length aspectOrder = 7 \<and> length DEFAULT_ASPECTS = 7 \<and> length heatmap_aspectOrder = 7
   \<and> (\<forall>i < 7. aspectOrder ! i = DEFAULT_ASPECTS ! i
               \<and> DEFAULT_ASPECTS ! i = heatmap_aspectOrder ! i)"
  by (simp add: aspectOrder_def DEFAULT_ASPECTS_def heatmap_aspectOrder_def)

theorem aspect_lists_agree_witness:
  "aspectOrder ! 5 = lit ''Energy Security'' \<and> DEFAULT_ASPECTS ! 5 = lit ''Energy Security''
   \<and> heatmap_aspectOrder ! 5 = lit ''Energy Security''"
proof -
  have "aspectOrder ! 5 = lit ''Energy Security''"
    by (simp add: aspectOrder_def)
  with aspect_lists_agree show ?thesis
    by simp
qed


subsection \<open>Formatting a reason\<close>

lemma formatReason_falsy:
  "\<not> truthy (item_reason item) \<Longrightarrow> formatReason item = []"
  by (cases "item_reason item") (simp_all add: formatReason_def)

lemma formatReason_no_change:
  "item_reason item = Some (lit ''no significant change'') \<Longrightarrow> formatReason item = []"
  by (simp add: formatReason_def)

lemma formatReason_length: "length (formatReason item) \<le> 160"
proof (cases "item_reason item")
  case None
  then show ?thesis by (simp add: formatReason_def)
next
  case (Some reason)
  have "length (lit ''...'') = 3" by (simp add: lit_def)
  with Some show ?thesis
    by (simp add: formatReason_def Let_def slice_to_def)
qed

lemma formatReason_clean:
  assumes "item_reason item = Some reason" "reason \<noteq> []"
    "reason \<noteq> lit ''no significant change''"
  shows "formatReason item =
     (let t = trim reason; clean = (if endsWithPeriod t then butlast t else t)
      in if length clean > 160 then take 157 t @ lit ''...'' else clean)"
  using assms
  by (auto simp add: formatReason_def Let_def slice_to_def slice_drop_last_def butlast_conv_take)

text \<open>
  C9 (as amended). \<open>formatReason\<close> returns the empty string when the reason is absent,
  empty or equal to \<open>'no significant change'\<close>. Its result never has more than 160 code
  units. Otherwise the reason is trimmed and one trailing period is removed; when what is
  left is longer than 160 code units the result is the first 157 code units of the trimmed
  reason followed by \<open>'...'\<close>, and else it is what is left. The length test comes after
  the period is removed, so a trimmed reason of 161 code units that ends in a period is
  returned without its period and without an ellipsis.
\<close>

theorem formatReason_spec:
  "(\<not> truthy (item_reason item) \<or> item_reason item = Some (lit ''no significant change'')
      \<longrightarrow> formatReason item = [])
   \<and> length (formatReason item) \<le> 160
   \<and> (item_reason item = Some reason \<and> reason \<noteq> [] \<and> reason \<noteq> lit ''no significant change''
      \<longrightarrow> formatReason item =
           (let t = trim reason; clean = (if endsWithPeriod t then butlast t else t)
            in if length clean > 160 then take 157 t @ lit ''...'' else clean))"
  using formatReason_falsy formatReason_no_change formatReason_length formatReason_clean
  by blast

text \<open>
  The claim as first stated (every reason longer than 160 after trimming is cut to 157
  code units and \<open>'...'\<close>) fails at \<open>reason_161\<close>.
\<close>

theorem formatReason_counterexample:
  "length (trim reason_161) = 161
   \<and> formatReason \<lparr>item_aspect = [], item_delta = 0, item_score = None,
        item_reason = Some reason_161\<rparr> = replicate 160 0x61
   \<and> formatReason \<lparr>item_aspect = [], item_delta = 0, item_score = None,
        item_reason = Some reason_161\<rparr> \<noteq> take 157 (trim reason_161) @ lit ''...''"
  unfolding reason_161_def by code_simp

theorem formatReason_spec_witness:
  "formatReason \<lparr>item_aspect = [], item_delta = 0, item_score = None,
      item_reason = Some (lit '' Ports closed. '')\<rparr> = lit ''Ports closed''
   \<and> length (lit ''Ports closed'') \<le> 160"
proof -
  let ?r = "lit '' Ports closed. ''"
  let ?item = "\<lparr>item_aspect = [], item_delta = 0, item_score = None, item_reason = Some ?r\<rparr>"
  have t: "trim ?r = lit ''Ports closed.''"
    by (simp add: lit_def trim_def isWhiteSpace_def)
  have ne: "?r \<noteq> [] \<and> ?r \<noteq> lit ''no significant change''"
    by (simp add: lit_def)
  from formatReason_spec [of ?item ?r] ne
  have "formatReason ?item =
     (let t = trim ?r; clean = (if endsWithPeriod t then butlast t else t)
      in if length clean > 160 then take 157 t @ lit ''...'' else clean)"
    by simp
  then show ?thesis
    unfolding t by (simp add: lit_def endsWithPeriod_def)
qed


subsection \<open>Association lists as Maps\<close>

lemma map_of_map_set: "map_of (map_set k v m) = (map_of m)(k \<mapsto> v)"
  by (induction m) auto

lemma map_fst_map_set_old: "k \<in> fst ` set m \<Longrightarrow> map fst (map_set k v m) = map fst m"
  by (induction m) force+

lemma map_fst_map_set_new: "k \<notin> fst ` set m \<Longrightarrow> map fst (map_set k v m) = map fst m @ [k]"
  by (induction m) auto

lemma distinct_map_set: "distinct (map fst m) \<Longrightarrow> distinct (map fst (map_set k v m))"
  by (cases "k \<in> fst ` set m") (simp_all add: map_fst_map_set_old map_fst_map_set_new)

lemma set_map_set: "set (map_set k v m) \<subseteq> insert (k, v) (set m)"
  by (induction m) (auto split: if_splits)

subsection \<open>The groups of \<open>buildImpactSummary\<close>\<close>

lemma lookup2_addImpact:
  "lookup2 (addImpact G i) c a =
     (if c = impact_country i \<and> a = impact_aspect i
      then Some (add_to_group (case lookup2 G c a of None \<Rightarrow> empty_group | Some g \<Rightarrow> g) i)
      else lookup2 G c a)"
  by (auto simp add: lookup2_def addImpact_def Let_def map_of_map_set empty_group_def
      split: option.splits)

lemma lookup2_foldl_addImpact:
  "lookup2 (foldl addImpact G imps) c a =
     (if records_for c a imps = [] then lookup2 G c a
      else Some (foldl add_to_group (case lookup2 G c a of None \<Rightarrow> empty_group | Some g \<Rightarrow> g)
                   (records_for c a imps)))"
proof (induction imps arbitrary: G)
  case Nil
  then show ?case by (simp add: records_for_def)
next
  case (Cons i imps)
  show ?case
    unfolding foldl_Cons Cons.IH lookup2_addImpact
    by (auto simp add: records_for_def)
qed

lemma lookup2_groupImpacts:
  "lookup2 (groupImpacts imps) c a =
     (if records_for c a imps = [] then None
      else Some (foldl add_to_group empty_group (records_for c a imps)))"
  unfolding groupImpacts_def lookup2_foldl_addImpact by (simp add: lookup2_def)

lemma first_reason_set_add:
  "rs \<noteq> [] \<Longrightarrow> first_reason (set_add r rs) = first_reason rs"
  by (cases rs) (simp_all add: first_reason_def set_add_def)

lemma first_reason_add_to_group:
  "group_reasons g \<noteq> [] \<Longrightarrow>
     group_reasons (add_to_group g i) \<noteq> [] \<and>
     first_reason (group_reasons (add_to_group g i)) = first_reason (group_reasons g)"
  by (cases "group_reasons g")
    (auto simp add: add_to_group_def first_reason_def set_add_def split: option.splits)

lemma first_reason_foldl_nonempty:
  "group_reasons g \<noteq> [] \<Longrightarrow>
     first_reason (group_reasons (foldl add_to_group g imps)) = first_reason (group_reasons g)"
  by (induction imps arbitrary: g) (simp_all add: first_reason_add_to_group)

lemma first_reason_foldl_empty:
  "group_reasons g = [] \<Longrightarrow>
     first_reason (group_reasons (foldl add_to_group g imps)) = first_nonempty_reason imps"
proof (induction imps arbitrary: g)
  case Nil
  then show ?case by (simp add: first_reason_def)
next
  case (Cons i imps)
  show ?case
  proof (cases "truthy (impact_reason i)")
    case True
    then obtain r where r: "impact_reason i = Some r" "r \<noteq> []"
      by (cases "impact_reason i") auto
    with Cons.prems have one: "group_reasons (add_to_group g i) = [r]"
      by (simp add: add_to_group_def set_add_def)
    have "first_reason (group_reasons (foldl add_to_group (add_to_group g i) imps))
            = first_reason (group_reasons (add_to_group g i))"
      by (rule first_reason_foldl_nonempty) (simp add: one)
    then show ?thesis
      using True r one by (simp add: first_reason_def)
  next
    case False
    with Cons.prems have "group_reasons (add_to_group g i) = []"
      by (cases "impact_reason i") (simp_all add: add_to_group_def)
    with Cons.IH False show ?thesis by simp
  qed
qed

lemma keys_distinct_addImpact: "keys_distinct G \<Longrightarrow> keys_distinct (addImpact G i)"
proof -
  assume kd: "keys_distinct G"
  let ?am = "case map_of G (impact_country i) of None \<Rightarrow> [] | Some m \<Rightarrow> m"
  have "distinct (map fst ?am)"
  proof (cases "map_of G (impact_country i)")
    case None then show ?thesis by simp
  next
    case (Some m)
    then have "(impact_country i, m) \<in> set G" by (rule map_of_SomeD)
    with kd Some show ?thesis by (auto simp add: keys_distinct_def)
  qed
  then have inner: "distinct (map fst (map_set (impact_aspect i) v ?am))" for v
    by (rule distinct_map_set)
  show ?thesis
    unfolding keys_distinct_def addImpact_def Let_def
  proof (intro conjI ballI)
    show "distinct (map fst (map_set (impact_country i)
        (map_set (impact_aspect i)
          (add_to_group (case map_of ?am (impact_aspect i) of
               None \<Rightarrow> \<lparr>group_delta = Some 0, group_reasons = []\<rparr> | Some g \<Rightarrow> g) i) ?am) G))"
      using kd by (simp add: keys_distinct_def distinct_map_set)
  next
    fix e
    assume "e \<in> set (map_set (impact_country i)
        (map_set (impact_aspect i)
          (add_to_group (case map_of ?am (impact_aspect i) of
               None \<Rightarrow> \<lparr>group_delta = Some 0, group_reasons = []\<rparr> | Some g \<Rightarrow> g) i) ?am) G)"
    then have "e \<in> set G \<or> (\<exists>v. snd e = map_set (impact_aspect i) v ?am)"
      using set_map_set by fastforce
    then show "distinct (map fst (snd e))"
      using kd inner by (auto simp add: keys_distinct_def)
  qed
qed

lemma keys_distinct_foldl: "keys_distinct G \<Longrightarrow> keys_distinct (foldl addImpact G imps)"
  by (induction imps arbitrary: G) (simp_all add: keys_distinct_addImpact)

lemma keys_distinct_groupImpacts: "keys_distinct (groupImpacts imps)"
  unfolding groupImpacts_def by (rule keys_distinct_foldl) (simp add: keys_distinct_def)

lemma groupImpacts_member:
  assumes "(c, am) \<in> set (groupImpacts imps)" "(a, g) \<in> set am"
  shows "lookup2 (groupImpacts imps) c a = Some g"
proof -
  have kd: "keys_distinct (groupImpacts imps)" by (rule keys_distinct_groupImpacts)
  then have "map_of (groupImpacts imps) c = Some am"
    using assms(1) by (simp add: keys_distinct_def)
  moreover have "distinct (map fst am)"
    using kd assms(1) by (auto simp add: keys_distinct_def)
  then have "map_of am a = Some g"
    using assms(2) by simp
  ultimately show ?thesis by (simp add: lookup2_def)
qed

subsection \<open>Sums of numbers\<close>
















lemma those_map_Some:
  "(\<And>x. x \<in> set xs \<Longrightarrow> f x = Some (g x)) \<Longrightarrow> those (map f xs) = Some (map g xs)"
  by (induction xs) simp_all

lemma those_map_None: "x \<in> set xs \<Longrightarrow> f x = None \<Longrightarrow> those (map f xs) = None"
  by (induction xs) (auto split: option.splits)

lemma summary_entry_of_eq:
  "summary_entry_of entry =
     (if list_all (\<lambda>a. js_abs (sum_delta a) \<noteq> None) (cs_aspects entry)
      then Some (entry_of entry) else None)"
  by (simp add: summary_entry_of_def sort_desc_js_def entry_of_def)

lemma summarize_eq:
  "summarize imps =
     (if list_all followed (map country_summary_of (groupImpacts imps))
      then Some (map entry_of (sort_desc (\<lambda>e. number_value (cs_totalImpact e))
                   (map country_summary_of (groupImpacts imps))))
      else None)"
proof -
  let ?xs = "map country_summary_of (groupImpacts imps)"
  let ?sorted = "sort_desc (\<lambda>e. number_value (cs_totalImpact e)) ?xs"
  have set_sorted: "set ?sorted = set ?xs"
    by (simp add: sort_desc_def)
  show ?thesis
  proof (cases "list_all (\<lambda>x. cs_totalImpact x \<noteq> None) ?xs")
    case False
    then have "\<not> list_all followed ?xs"
      by (auto simp add: list_all_iff followed_def)
    with False show ?thesis
      by (simp add: summarize_def sort_desc_js_def)
  next
    case True
    then have s: "summarize imps = those (map summary_entry_of ?sorted)"
      by (simp add: summarize_def sort_desc_js_def)
    show ?thesis
    proof (cases "list_all followed ?xs")
      case all: True
      have "those (map summary_entry_of ?sorted) = Some (map entry_of ?sorted)"
      proof (rule those_map_Some)
        fix x assume "x \<in> set ?sorted"
        with set_sorted all have "followed x"
          by (auto simp add: list_all_iff)
        then show "summary_entry_of x = Some (entry_of x)"
          by (simp add: summary_entry_of_eq followed_def)
      qed
      with s all show ?thesis by simp
    next
      case False
      then obtain x where x: "x \<in> set ?xs" "\<not> followed x"
        by (auto simp add: list_all_iff)
      with True have "summary_entry_of x = None"
        by (auto simp add: summary_entry_of_eq followed_def list_all_iff)
      moreover from x set_sorted have "x \<in> set ?sorted" by simp
      ultimately have "those (map summary_entry_of ?sorted) = None"
        by (rule those_map_None [rotated])
      with s False show ?thesis by simp
    qed
  qed
qed


lemma buildImpactSummary_summarize:
  "impacts d = Some imps \<Longrightarrow> buildImpactSummary d = summarize imps"
proof (cases "imps = []")
  case True
  assume "impacts d = Some imps"
  with True show ?thesis
    by (simp add: buildImpactSummary_def summarize_eq groupImpacts_def sort_desc_def)
next
  case False
  assume "impacts d = Some imps"
  with False show ?thesis
    by (simp add: buildImpactSummary_def)
qed


subsection \<open>The result of \<open>buildImpactSummary\<close>\<close>

lemma summarize_member:
  assumes "summarize imps = Some out" "e \<in> set out" "item \<in> set (entry_aspects e)"
  shows "\<exists>g. lookup2 (groupImpacts imps) (entry_country e) (sum_aspect item) = Some g
            \<and> sum_delta item = group_delta g
            \<and> sum_reason item = first_reason (group_reasons g)"
proof -
  from assms(1) have out: "out = map entry_of (sort_desc (\<lambda>e. number_value (cs_totalImpact e))
      (map country_summary_of (groupImpacts imps)))"
    by (simp add: summarize_eq split: if_splits)
  with assms(2) obtain ce where ce: "ce \<in> set (groupImpacts imps)"
    and e: "e = entry_of (country_summary_of ce)"
    by (auto simp add: sort_desc_def)
  from assms(3) e
  have "item \<in> set (take 2 (sort_desc (\<lambda>a. number_value (js_abs (sum_delta a)))
                             (cs_aspects (country_summary_of ce))))"
    by (simp add: entry_of_def)
  then have "item \<in> set (sort_desc (\<lambda>a. number_value (js_abs (sum_delta a)))
                            (cs_aspects (country_summary_of ce)))"
    by (rule in_set_takeD)
  then have "item \<in> set (cs_aspects (country_summary_of ce))"
    by (simp add: sort_desc_def)
  then obtain ae where ae: "ae \<in> set (snd ce)" and item: "item = summary_item_of ae"
    by (auto simp add: country_summary_of_def Let_def)
  have "lookup2 (groupImpacts imps) (fst ce) (fst ae) = Some (snd ae)"
    using ce ae by (intro groupImpacts_member [of _ "snd ce"]) simp_all
  then show ?thesis
    using e item
    by (simp add: entry_of_def country_summary_of_def Let_def summary_item_of_def)
qed

lemma group_exists:
  "records_for c a imps \<noteq> [] \<Longrightarrow> \<exists>g. lookup2 (groupImpacts imps) c a = Some g"
  by (simp add: lookup2_groupImpacts)


lemma group_reason:
  assumes "lookup2 (groupImpacts imps) c a = Some g"
  shows "first_reason (group_reasons g) = first_nonempty_reason (records_for c a imps)"
proof -
  from assms have "g = foldl add_to_group empty_group (records_for c a imps)"
    unfolding lookup2_groupImpacts by (simp split: if_splits)
  then show ?thesis
    by (simp add: first_reason_foldl_empty empty_group_def)
qed

lemma summary_item_reason:
  assumes "impacts d = Some imps" "buildImpactSummary d = Some out" "e \<in> set out"
    "item \<in> set (entry_aspects e)"
  shows "sum_reason item =
           first_nonempty_reason (records_for (entry_country e) (sum_aspect item) imps)"
proof -
  from assms(1,2) have "summarize imps = Some out"
    by (simp add: buildImpactSummary_summarize)
  from summarize_member [OF this assms(3,4)] show ?thesis
    by (auto simp add: group_reason)
qed

lemma candidate_item_reason:
  assumes "ce \<in> set (map country_summary_of (groupImpacts imps))" "item \<in> set (cs_aspects ce)"
  shows "sum_reason item =
           first_nonempty_reason (records_for (cs_country ce) (sum_aspect item) imps)"
proof -
  from assms(1) obtain e where e: "e \<in> set (groupImpacts imps)" and ce: "ce = country_summary_of e"
    by auto
  from assms(2) ce obtain ae where ae: "ae \<in> set (snd e)" and item: "item = summary_item_of ae"
    by (auto simp add: country_summary_of_def Let_def)
  have "lookup2 (groupImpacts imps) (fst e) (fst ae) = Some (snd ae)"
    using e ae by (intro groupImpacts_member [of _ "snd e"]) simp_all
  from group_reason [OF this] show ?thesis
    by (simp add: ce item country_summary_of_def Let_def summary_item_of_def)
qed






text \<open>
  C7. When several records hit the same (country, aspect) pair, the reason of that pair in
  the merged output is the first non-empty reason among the records of the pair, in the
  order of the list (and \<open>undefined\<close> when none of them has one). This holds for every item
  of the result of \<open>buildImpactSummary\<close>, for every group of \<open>countryMap\<close>, where every pair
  with a record has a group, and for every item the function builds before it sorts and
  cuts, whatever the numbers are.
\<close>

theorem merged_reason_is_first_nonempty:
  "(impacts d = Some imps \<and> buildImpactSummary d = Some out
      \<and> e \<in> set out \<and> item \<in> set (entry_aspects e)
      \<longrightarrow> sum_reason item =
            first_nonempty_reason (records_for (entry_country e) (sum_aspect item) imps))
   \<and> (lookup2 (groupImpacts imps) c a = Some g
      \<longrightarrow> first_reason (group_reasons g) = first_nonempty_reason (records_for c a imps))
   \<and> (records_for c a imps \<noteq> [] \<longrightarrow> (\<exists>g. lookup2 (groupImpacts imps) c a = Some g))
   \<and> (ce \<in> set (map country_summary_of (groupImpacts imps)) \<and> built \<in> set (cs_aspects ce)
      \<longrightarrow> sum_reason built =
            first_nonempty_reason (records_for (cs_country ce) (sum_aspect built) imps))"
  using summary_item_reason group_reason group_exists candidate_item_reason by blast

subsection \<open>References that no enumeration lists\<close>
























subsection \<open>The properties at the example payloads\<close>

lemma example_summary: "buildImpactSummary (payload example_impacts) = Some example_result"
  by code_simp


lemma japan_entry_member:
  "japan_entry \<in> set example_result \<and> japan_item \<in> set (entry_aspects japan_entry)"
  by (simp add: example_result_def japan_entry_def)


lemma example_payload: "impacts (payload imps) = Some imps"
  by (simp add: payload_def)


theorem merged_reason_is_first_nonempty_witness:
  "buildImpactSummary (payload example_impacts) = Some example_result
   \<and> japan_entry \<in> set example_result
   \<and> japan_item \<in> set (entry_aspects japan_entry)
   \<and> first_nonempty_reason
        (records_for (lit ''Japan'') (lit ''Energy Security'') example_impacts)
       = Some (lit ''LNG imports disrupted'')
   \<and> (\<exists>g. lookup2 (groupImpacts example_impacts) (lit ''Japan'') (lit ''Energy Security'')
              = Some g
            \<and> first_reason (group_reasons g) = Some (lit ''LNG imports disrupted''))"
proof -
  note T = merged_reason_is_first_nonempty [where d = "payload example_impacts"
      and imps = example_impacts and out = example_result and e = japan_entry
      and item = japan_item]
  have d: "sum_reason japan_item = Some (lit ''LNG imports disrupted'')"
    "entry_country japan_entry = lit ''Japan''"
    "sum_aspect japan_item = lit ''Energy Security''"
    by (simp_all add: japan_item_def japan_entry_def)
  from T have "sum_reason japan_item = first_nonempty_reason
      (records_for (entry_country japan_entry) (sum_aspect japan_item) example_impacts)"
    using example_payload example_summary japan_entry_member by blast
  then have 1: "first_nonempty_reason
      (records_for (lit ''Japan'') (lit ''Energy Security'') example_impacts)
      = Some (lit ''LNG imports disrupted'')"
    unfolding d by simp
  note G = merged_reason_is_first_nonempty [where imps = example_impacts
      and c = "lit ''Japan''" and a = "lit ''Energy Security''"]
  have ne: "records_for (lit ''Japan'') (lit ''Energy Security'') example_impacts \<noteq> []"
    by (simp add: records_for_def example_impacts_def mk_impact_def)
  from G ne obtain g
    where g: "lookup2 (groupImpacts example_impacts) (lit ''Japan'') (lit ''Energy Security'')
      = Some g"
    by blast
  note H = merged_reason_is_first_nonempty [where imps = example_impacts
      and c = "lit ''Japan''" and a = "lit ''Energy Security''" and g = g]
  from H g have "first_reason (group_reasons g) = first_nonempty_reason
      (records_for (lit ''Japan'') (lit ''Energy Security'') example_impacts)"
    by blast
  with 1 g have 2: "\<exists>g. lookup2 (groupImpacts example_impacts) (lit ''Japan'')
        (lit ''Energy Security'') = Some g
      \<and> first_reason (group_reasons g) = Some (lit ''LNG imports disrupted'')"
    by simp
  from 1 2 example_summary japan_entry_member show ?thesis
    by (intro conjI) blast+
qed




subsection \<open>Ranking\<close>

lemma sortEntries_descending: "sorted_wrt (\<lambda>x y. snd y \<le> snd x) (sortEntries scores)"
proof -
  have "sorted (map (\<lambda>x. - snd x) (sortEntries scores))"
    unfolding sortEntries_def sort_desc_def by (rule sorted_sort_key)
  then show ?thesis
    by (simp add: sorted_map)
qed

lemma sortEntries_perm: "mset (sortEntries scores) = mset scores"
  by (simp add: sortEntries_def sort_desc_def)

lemma sortEntries_stable:
  "filter (\<lambda>e. snd e = k) (sortEntries scores) = filter (\<lambda>e. snd e = k) scores"
proof -
  have "filter (\<lambda>e. - snd e = - k) (sort_key (\<lambda>x. - snd x) scores)
          = filter (\<lambda>e. - snd e = - k) scores"
    by (rule sort_key_stable)
  then show ?thesis
    by (simp add: sortEntries_def sort_desc_def)
qed

lemma sortedCountries_eq:
  "sortedCountries analysisData = map fst (sortEntries (countryScores analysisData))"
  by (simp add: sortedCountries_def hasData_def sortEntries_def sort_desc_def)

lemma map_over_enumerate: "map (\<lambda>ie. f (snd ie)) (enumerate n xs) = map f xs"
proof -
  have "map (\<lambda>ie. f (snd ie)) (enumerate n xs) = map f (map snd (enumerate n xs))"
    by (simp only: map_map comp_def)
  then show ?thesis
    by (simp only: map_snd_enumerate)
qed

lemma foldl_rank_fresh:
  assumes "distinct (map fst acc @ map (\<lambda>ie. fst (snd ie)) xs)"
  shows "foldl (\<lambda>acc ie. map_set (fst (snd ie)) (int (fst ie) + 1) acc) acc xs
           = acc @ map (\<lambda>ie. (fst (snd ie), int (fst ie) + 1)) xs"
  using assms
proof (induction xs arbitrary: acc)
  case Nil
  then show ?case by simp
next
  case (Cons x xs)
  have fresh: "fst (snd x) \<notin> fst ` set acc"
    using Cons.prems by auto
  have "map_set (fst (snd x)) (int (fst x) + 1) acc = acc @ [(fst (snd x), int (fst x) + 1)]"
    using fresh by (induction acc) auto
  moreover have "distinct (map fst (acc @ [(fst (snd x), int (fst x) + 1)])
                   @ map (\<lambda>ie. fst (snd ie)) xs)"
    using Cons.prems by auto
  ultimately show ?case
    using Cons.IH [of "acc @ [(fst (snd x), int (fst x) + 1)]"] by simp
qed

lemma buildRankMap_distinct:
  assumes "distinct (map fst scores)"
  shows "buildRankMap scores
           = map (\<lambda>ie. (fst (snd ie), int (fst ie) + 1)) (enumerate 0 (sortEntries scores))"
proof -
  have "mset (map fst (sortEntries scores)) = mset (map fst scores)"
    by (simp add: sortEntries_perm)
  then have "distinct (map fst (sortEntries scores))"
    using assms mset_eq_imp_distinct_iff by blast
  then have "distinct (map (\<lambda>ie. fst (snd ie)) (enumerate 0 (sortEntries scores)))"
    by (simp only: map_over_enumerate)
  then show ?thesis
    unfolding buildRankMap_def by (subst foldl_rank_fresh) simp_all
qed

lemma buildRankMap_rank:
  assumes "distinct (map fst scores)" "i < length scores"
  shows "map_of (buildRankMap scores) (fst (sortEntries scores ! i)) = Some (int i + 1)"
proof -
  let ?s = "sortEntries scores"
  have len: "length ?s = length scores"
    using arg_cong [OF sortEntries_perm, of size scores] by simp
  have d: "distinct (map fst ?s)"
  proof -
    have "mset (map fst ?s) = mset (map fst scores)"
      by (simp add: sortEntries_perm)
    then show ?thesis
      using assms(1) mset_eq_imp_distinct_iff by blast
  qed
  have rm: "buildRankMap scores = map (\<lambda>ie. (fst (snd ie), int (fst ie) + 1)) (enumerate 0 ?s)"
    using assms(1) by (rule buildRankMap_distinct)
  have keys: "map fst (buildRankMap scores) = map fst ?s"
    unfolding rm by (simp add: comp_def map_over_enumerate)
  have i: "i < length (enumerate 0 ?s)"
    using assms(2) len by simp
  then have "enumerate 0 ?s ! i = (i, ?s ! i)"
    by (simp add: nth_enumerate_eq)
  with i have "(i, ?s ! i) \<in> set (enumerate 0 ?s)"
    using nth_mem [OF i] by simp
  then have "(\<lambda>ie. (fst (snd ie), int (fst ie) + 1)) (i, ?s ! i)
               \<in> (\<lambda>ie. (fst (snd ie), int (fst ie) + 1)) ` set (enumerate 0 ?s)"
    by (rule imageI)
  then have "(fst (?s ! i), int i + 1) \<in> set (buildRankMap scores)"
    unfolding rm by simp
  moreover have "distinct (map fst (buildRankMap scores))"
    unfolding keys by (rule d)
  ultimately show ?thesis by simp
qed

text \<open>
  C3 (as amended). The ranking lists every country of \<open>country_scores\<close> once, in
  descending order of its score; countries with equal scores keep the order in which
  \<open>country_scores\<close> lists them, since the sort is stable and has no other tie-break; and
  \<open>buildRankMap\<close> gives the country at position \<open>i\<close> of that order the rank \<open>i + 1\<close>.
  When the payload lists its countries in the order of an enumeration, ties are therefore
  broken by that order.
  The ranking is a function of the payload, so the same payload always gives the same
  ranking.
\<close>

theorem ranking_descending_stable:
  "sorted_wrt (\<lambda>x y. snd y \<le> snd x) (sortEntries (countryScores ad))
   \<and> sortedCountries ad = map fst (sortEntries (countryScores ad))
   \<and> mset (sortEntries (countryScores ad)) = mset (countryScores ad)
   \<and> filter (\<lambda>e. snd e = k) (sortEntries (countryScores ad))
       = filter (\<lambda>e. snd e = k) (countryScores ad)
   \<and> (distinct (map fst scores) \<and> i < length scores
      \<longrightarrow> map_of (buildRankMap scores) (fst (sortEntries scores ! i)) = Some (int i + 1))"
  using sortEntries_descending sortedCountries_eq sortEntries_perm sortEntries_stable
    buildRankMap_rank
  by blast

text \<open>
  The claim as first stated names a fixed enumeration of the countries as the tie-break.
  The presentation layer has none: two payloads with the same scores for the same countries,
  with their keys in different orders, rank the tied countries differently.
\<close>

theorem ranking_tiebreak_counterexample:
  "set tie_scores_1 = set tie_scores_2
   \<and> sortedCountries (Some (scores_payload tie_scores_1))
       = [lit ''Japan'', lit ''USA'', lit ''India'']
   \<and> sortedCountries (Some (scores_payload tie_scores_2))
       = [lit ''USA'', lit ''Japan'', lit ''India'']"
proof -
  have "set tie_scores_1 = set tie_scores_2"
    by (auto simp add: tie_scores_1_def tie_scores_2_def)
  moreover have "sortedCountries (Some (scores_payload tie_scores_1))
       = [lit ''Japan'', lit ''USA'', lit ''India'']"
    by code_simp
  moreover have "sortedCountries (Some (scores_payload tie_scores_2))
       = [lit ''USA'', lit ''Japan'', lit ''India'']"
    by code_simp
  ultimately show ?thesis by blast
qed

theorem ranking_descending_stable_witness:
  "sortedCountries (Some (scores_payload tie_scores_1)) = [lit ''Japan'', lit ''USA'', lit ''India'']
   \<and> distinct (map fst tie_scores_1) \<and> 1 < length tie_scores_1
   \<and> map_of (buildRankMap tie_scores_1) (lit ''USA'') = Some 2"
proof -
  note T = ranking_descending_stable [where ad = "Some (scores_payload tie_scores_1)"
      and scores = tie_scores_1 and i = 1]
  have cs: "countryScores (Some (scores_payload tie_scores_1)) = tie_scores_1"
    by (simp add: countryScores_def scores_payload_def)
  have se: "sortEntries tie_scores_1 = [(lit ''Japan'', 72), (lit ''USA'', 72), (lit ''India'', 61)]"
    by code_simp
  have h: "distinct (map fst tie_scores_1) \<and> 1 < length tie_scores_1"
    by (simp add: tie_scores_1_def lit_def)
  from T h show ?thesis
    unfolding cs se by simp
qed


subsection \<open>The welcome message\<close>

lemma createMessageId_not_welcome: "createMessageId n r \<noteq> StrId (lit ''welcome'')"
proof
  assume "createMessageId n r = StrId (lit ''welcome'')"
  then have "n @ lit ''-'' @ r = lit ''welcome''"
    by (simp add: createMessageId_def)
  then have "set (n @ lit ''-'' @ r) = set (lit ''welcome'')"
    by simp
  moreover have "0x2D \<in> set (n @ lit ''-'' @ r)"
    by (simp add: lit_def)
  moreover have "0x2D \<notin> set (lit ''welcome'')"
    by (simp add: lit_def)
  ultimately show False by simp
qed

lemma welcome_first_iff:
  "welcome_first ms \<longleftrightarrow>
     (\<exists>rest. ms = welcomeMessage # rest \<and> (\<forall>x \<in> set rest. msg_id x \<noteq> StrId (lit ''welcome'')))"
  by (cases ms) (auto simp add: welcome_first_def list_all_iff)

lemma welcome_first_default: "welcome_first defaultMessages"
  by (simp add: welcome_first_iff defaultMessages_def)

lemma welcome_first_history: "welcome_first (defaultMessages @ map mapped history)"
  by (auto simp add: welcome_first_iff defaultMessages_def mapped_def)

lemma welcome_first_append:
  "welcome_first ms \<Longrightarrow> msg_id m \<noteq> StrId (lit ''welcome'') \<Longrightarrow> welcome_first (ms @ [m])"
  by (auto simp add: welcome_first_iff)

lemma welcome_first_filter:
  "welcome_first ms \<Longrightarrow> t \<noteq> StrId (lit ''welcome'') \<Longrightarrow>
     welcome_first (filter (\<lambda>message. msg_id message \<noteq> t) ms)"
  by (auto simp add: welcome_first_iff welcomeMessage_def)

lemma welcome_first_map:
  assumes "welcome_first ms" "k \<noteq> StrId (lit ''welcome'')"
    "\<And>m. msg_id m \<noteq> StrId (lit ''welcome'') \<Longrightarrow> msg_id (f m) \<noteq> StrId (lit ''welcome'')"
  shows "welcome_first (map (\<lambda>message. if msg_id message = k then f message else message) ms)"
proof -
  from assms(1) obtain rest where ms: "ms = welcomeMessage # rest"
    and rest: "\<forall>x \<in> set rest. msg_id x \<noteq> StrId (lit ''welcome'')"
    by (auto simp add: welcome_first_iff)
  have "msg_id welcomeMessage \<noteq> k"
    using assms(2) by (auto simp add: welcomeMessage_def)
  then show ?thesis
    unfolding ms welcome_first_iff using rest assms(3) by auto
qed

lemma welcome_first_member:
  assumes "welcome_first ms" "m \<in> set ms" "msg_scenario m = Some scen"
  shows "msg_id m \<noteq> StrId (lit ''welcome'')"
proof -
  from assms(1) obtain rest where ms: "ms = welcomeMessage # rest"
    and rest: "\<forall>x \<in> set rest. msg_id x \<noteq> StrId (lit ''welcome'')"
    by (auto simp add: welcome_first_iff)
  have "m \<noteq> welcomeMessage"
    using assms(3) by (auto simp add: welcomeMessage_def)
  with assms(2) ms have "m \<in> set rest" by simp
  with rest show ?thesis by simp
qed

lemma find_member: "find P xs = Some x \<Longrightarrow> x \<in> set xs \<and> P x"
  by (induction xs) (auto split: if_splits)

lemma runScenario_messages:
  "messages (runScenario pendingId now scen del st) =
     (case del of
        None \<Rightarrow> messages st
      | Some t \<Rightarrow> if id_truthy t then filter (\<lambda>message. msg_id message \<noteq> t) (messages st)
                  else messages st)
     @ [pendingMessage pendingId now scen]"
  by (simp add: runScenario_def Let_def)

lemma runScenario_welcome_first:
  assumes "welcome_first (messages st)" "pendingId \<noteq> StrId (lit ''welcome'')"
    "\<And>t. del = Some t \<Longrightarrow> t \<noteq> StrId (lit ''welcome'')"
  shows "welcome_first (messages (runScenario pendingId now scen del st))"
proof -
  have p: "msg_id (pendingMessage pendingId now scen) \<noteq> StrId (lit ''welcome'')"
    using assms(2) by (simp add: pendingMessage_def)
  show ?thesis
  proof (cases del)
    case None
    then show ?thesis
      unfolding runScenario_messages using assms(1) p by (simp add: welcome_first_append)
  next
    case (Some t)
    then have "t \<noteq> StrId (lit ''welcome'')" by (rule assms(3))
    then have "welcome_first (filter (\<lambda>message. msg_id message \<noteq> t) (messages st))"
      using assms(1) by (simp add: welcome_first_filter)
    then show ?thesis
      unfolding runScenario_messages using Some assms(1) p by (simp add: welcome_first_append)
  qed
qed

lemma handleSendMessage_welcome_first:
  assumes "welcome_first (messages st)"
  shows "welcome_first (messages (handleSendMessage (createMessageId n1 r1)
            (createMessageId n2 r2) now st))"
proof (cases "trim (input st) = []")
  case True
  then show ?thesis using assms by (simp add: handleSendMessage_def)
next
  case False
  let ?st = "st\<lparr>messages := messages st @ [userMessage (createMessageId n1 r1) (trim (input st))],
                  calls := calls st @ [AddChatMessage (trim (input st)) (lit ''user'')
                                        (trim (input st)) None],
                  input := []\<rparr>"
  have "welcome_first (messages ?st)"
    using assms createMessageId_not_welcome [of n1 r1]
    by (simp add: welcome_first_append userMessage_def)
  then have "welcome_first (messages (runScenario (createMessageId n2 r2) now
               (trim (input st)) None ?st))"
    by (rule runScenario_welcome_first) (simp_all add: createMessageId_not_welcome)
  then show ?thesis
    using False by (simp add: handleSendMessage_def Let_def)
qed

lemma handleRegenerate_welcome_first:
  assumes "welcome_first (messages st)" "welcome_first shown" "message \<in> set shown"
  shows "welcome_first (messages (handleRegenerate shown loading (msg_scenario message)
            (msg_id message) (msg_sender message) (createMessageId n r) now st))"
proof (cases "msg_scenario message")
  case None
  then show ?thesis using assms(1) by (simp add: handleRegenerate_def)
next
  case (Some scen)
  show ?thesis
  proof (cases "scen = [] \<or> loading")
    case True
    then show ?thesis using assms(1) Some by (auto simp add: handleRegenerate_def)
  next
    case False
    show ?thesis
    proof (cases "msg_sender message = lit ''user''")
      case True
      show ?thesis
      proof (cases "findLastBotMessageForScenario (Some scen) shown")
        case None
        then show ?thesis
          using assms(1) Some False True by (simp add: handleRegenerate_def)
      next
        case (Some lastBotMessage)
        then have "find (\<lambda>m. msg_sender m = lit ''bot'' \<and> msg_scenario m = Some scen) (rev shown)
                     = Some lastBotMessage"
          by (simp add: findLastBotMessageForScenario_def split: if_splits)
        then have "lastBotMessage \<in> set shown" "msg_scenario lastBotMessage = Some scen"
          using find_member [of _ "rev shown" lastBotMessage] by auto
        then have "msg_id lastBotMessage \<noteq> StrId (lit ''welcome'')"
          using assms(2) welcome_first_member by blast
        then have "welcome_first (messages (runScenario (createMessageId n r) now scen
                     (Some (msg_id lastBotMessage)) st))"
          using assms(1) by (intro runScenario_welcome_first) (simp_all add: createMessageId_not_welcome)
        then show ?thesis
          using \<open>msg_scenario message = Some scen\<close> False True Some
          by (simp add: handleRegenerate_def)
      qed
    next
      case notuser: False
      have "msg_id message \<noteq> StrId (lit ''welcome'')"
        using assms(2,3) Some welcome_first_member by blast
      then have "welcome_first (messages (runScenario (createMessageId n r) now scen
                   (Some (msg_id message)) st))"
        using assms(1) by (intro runScenario_welcome_first) (simp_all add: createMessageId_not_welcome)
      then show ?thesis
        using Some False notuser by (simp add: handleRegenerate_def)
    qed
  qed
qed

lemma resolved_welcome_first:
  assumes "welcome_first (messages st)"
  shows "welcome_first (messages (runScenario_resolved (createMessageId n r) scen result st))"
  unfolding runScenario_resolved_def Let_def
  using welcome_first_map [OF assms createMessageId_not_welcome [of n r]]
  by simp

lemma rejected_welcome_first:
  assumes "welcome_first (messages st)"
  shows "welcome_first (messages (runScenario_rejected (createMessageId n r) scen st))"
  unfolding runScenario_rejected_def Let_def
  using welcome_first_map [OF assms createMessageId_not_welcome [of n r]]
  by simp

lemma assigned_welcome_first:
  assumes "welcome_first (messages st)"
  shows "welcome_first (messages (message_id_assigned (createMessageId n r) message_id st))"
  unfolding message_id_assigned_def
  using assms welcome_first_map [OF assms createMessageId_not_welcome [of n r]]
  by (simp split: option.splits)

lemma reachable_welcome_first: "reachable st \<Longrightarrow> welcome_first (messages st)"
proof (induction rule: reachable.induct)
  case mount
  then show ?case by (simp add: initial_state_def welcome_first_default)
next
  case (typing st v)
  then show ?case by (simp add: setInput_def)
next
  case (history_request st)
  then show ?case by (simp add: refreshHistory_request_def)
next
  case (history st response)
  then show ?case
    by (simp add: refreshHistory_def welcome_first_default welcome_first_history
        split: option.splits)
next
  case (cleared st)
  then show ?case by (simp add: handleClear_def welcome_first_default)
next
  case (send st n1 r1 n2 r2 now)
  then show ?case by (simp add: handleSendMessage_welcome_first)
next
  case (regenerate st shown message n r now)
  then show ?case by (simp add: handleRegenerate_welcome_first)
next
  case (resolved st n r scenarioText result)
  then show ?case by (simp add: resolved_welcome_first)
next
  case (rejected st n r scenarioText)
  then show ?case by (simp add: rejected_welcome_first)
next
  case (assigned st n r message_id)
  then show ?case by (simp add: assigned_welcome_first)
qed

lemma refreshHistory_head: "\<exists>rest. messages (refreshHistory response st) = welcomeMessage # rest"
  by (simp add: refreshHistory_def defaultMessages_def split: option.splits)

lemma handleSendMessage_appends:
  "\<exists>new. messages (handleSendMessage userMessageId pendingId now st) = messages st @ new"
  by (cases "trim (input st) = []") (simp_all add: handleSendMessage_def Let_def runScenario_def)

text \<open>
  C10. The welcome message is always the first element of the Chatbot's message list:
  \<open>refreshHistory\<close> and the clear handler rebuild the list from \<open>defaultMessages\<close>,
  \<open>handleSendMessage\<close> appends, and \<open>runScenario\<close> appends, rewrites the message with
  the pending id in place, or filters out the id of a message that carries a scenario, which
  is never the id \<open>'welcome'\<close>. So in every reachable state the list is not empty and its
  element at index 0 is the welcome message.
\<close>

theorem welcome_message_stays_first:
  "(reachable st \<longrightarrow> messages st \<noteq> [] \<and> messages st ! 0 = welcomeMessage)
   \<and> (\<exists>rest. messages (refreshHistory response st) = welcomeMessage # rest)
   \<and> (\<exists>new. messages (handleSendMessage userMessageId pendingId now st) = messages st @ new)
   \<and> messages (runScenario pendingId now scenarioText botMessageIdToDelete st)
       = (case botMessageIdToDelete of
            None \<Rightarrow> messages st
          | Some t \<Rightarrow> if id_truthy t
                      then filter (\<lambda>message. msg_id message \<noteq> t) (messages st)
                      else messages st)
         @ [pendingMessage pendingId now scenarioText]"
proof -
  have "reachable st \<longrightarrow> messages st \<noteq> [] \<and> messages st ! 0 = welcomeMessage"
    using reachable_welcome_first [of st] by (auto simp add: welcome_first_iff)
  with refreshHistory_head handleSendMessage_appends runScenario_messages show ?thesis
    by blast
qed

lemma sent_state_reachable: "reachable sent_state"
  unfolding sent_state_def by (intro reachable.send reachable.typing reachable.mount)

theorem welcome_message_stays_first_witness:
  "reachable sent_state \<and> length (messages sent_state) = 3
   \<and> messages sent_state ! 0 = welcomeMessage"
proof -
  have "length (messages sent_state) = 3"
    by code_simp
  with sent_state_reachable welcome_message_stays_first [of sent_state]
  show ?thesis by simp
qed


subsection \<open>The aggregator\<close>

lemma clamp_range: "0 \<le> clamp x 0 100 \<and> clamp x 0 100 \<le> 100"
  by (simp add: clamp_def)

lemma clamp_id: "0 \<le> x \<Longrightarrow> x \<le> 100 \<Longrightarrow> clamp x 0 100 = x"
  by (simp add: clamp_def)

lemma scenario_table_in_range: "table_in_range (table_of countries (scenario_score baseline imps))"
  by (simp add: table_in_range_def scores_in_range_def table_of_def list_all_iff
      scenario_score_def clamp_range)

lemma totals_in_range: "scores_in_range (totals_of tbl)"
  by (simp add: scores_in_range_def totals_of_def list_all_iff country_total_def clamp_range)

lemma map_of_tabulate: "c \<in> set cs \<Longrightarrow> map_of (map (\<lambda>c. (c, g c)) cs) c = Some (g c)"
  by (induction cs) auto

lemma lookup2_table_of:
  "c \<in> set countries \<Longrightarrow> a \<in> set aspectOrder \<Longrightarrow>
     lookup2 (table_of countries f) c a = Some (f c a)"
  by (simp add: lookup2_def table_of_def map_of_tabulate)

lemma keys_table_of: "map fst (table_of countries f) = countries"
  by (simp add: table_of_def comp_def)

lemma keys_totals_of: "map fst (totals_of tbl) = map fst tbl"
  by (simp add: totals_of_def comp_def)

lemma records_for_valid:
  "c \<in> set countries \<Longrightarrow> a \<in> set aspectOrder \<Longrightarrow>
     records_for c a (filter (valid_reference countries) imps) = records_for c a imps"
  by (induction imps) (auto simp add: records_for_def valid_reference_def)

lemma summed_delta_valid:
  "c \<in> set countries \<Longrightarrow> a \<in> set aspectOrder \<Longrightarrow>
     summed_delta (filter (valid_reference countries) imps) c a = summed_delta imps c a"
  by (simp add: summed_delta_def records_for_valid)

lemma aggregate_error:
  "aggregate countries baseline imps = Inl e \<Longrightarrow>
     e = EmptyBaseline \<and> \<not> complete_baseline countries baseline"
  by (auto simp add: aggregate_def Let_def split: if_splits)

lemma aggregate_total:
  "complete_baseline countries baseline \<Longrightarrow> \<exists>r. aggregate countries baseline imps = Inr r"
  by (simp add: aggregate_def Let_def)

lemma aggregate_scores:
  assumes "aggregate countries baseline imps = Inr r"
  shows "aspect_scores r
           = Some (table_of countries
                    (scenario_score baseline (filter (valid_reference countries) imps)))"
    and "country_scores r
           = Some (totals_of (table_of countries
                    (scenario_score baseline (filter (valid_reference countries) imps))))"
    and "baseline_aspect_scores r = Some (table_of countries (baseline_score baseline))"
    and "baseline_country_scores r
           = Some (totals_of (table_of countries (baseline_score baseline)))"
  using assms by (auto simp add: aggregate_def Let_def split: if_splits)

lemma aggregate_in_range:
  assumes "aggregate countries baseline imps = Inr r"
  shows "\<exists>scen totals. aspect_scores r = Some scen \<and> country_scores r = Some totals
           \<and> table_in_range scen \<and> scores_in_range totals
           \<and> map fst scen = countries \<and> map fst totals = countries
           \<and> (c \<in> set countries \<and> a \<in> set aspectOrder
              \<longrightarrow> lookup2 scen c a
                    = Some (clamp (baseline_score baseline c a + summed_delta imps c a) 0 100))"
proof -
  let ?scen = "table_of countries
                 (scenario_score baseline (filter (valid_reference countries) imps))"
  have "c \<in> set countries \<and> a \<in> set aspectOrder
        \<longrightarrow> lookup2 ?scen c a
              = Some (clamp (baseline_score baseline c a + summed_delta imps c a) 0 100)"
    by (simp add: lookup2_table_of scenario_score_def summed_delta_valid)
  then show ?thesis
    using aggregate_scores(1,2) [OF assms]
    by (simp add: scenario_table_in_range totals_in_range keys_table_of keys_totals_of)
qed

text \<open>
  C1. For every baseline table and every list of impact records, the aggregator rejects
  nothing but an incomplete table: on a complete table it returns a result, whatever the
  deltas. In every result each AspectScore and each CountryScore lies in [0,100], for all
  the countries, and the score of a pair is the baseline score plus the summed delta,
  clamped to [0,100].
\<close>

theorem scores_clamped:
  "(aggregate countries baseline imps = Inl e
      \<longrightarrow> e = EmptyBaseline \<and> \<not> complete_baseline countries baseline)
   \<and> (complete_baseline countries baseline
      \<longrightarrow> (\<exists>r. aggregate countries baseline imps = Inr r))
   \<and> (aggregate countries baseline imps = Inr r
      \<longrightarrow> (\<exists>scen totals. aspect_scores r = Some scen \<and> country_scores r = Some totals
            \<and> table_in_range scen \<and> scores_in_range totals
            \<and> map fst scen = countries \<and> map fst totals = countries
            \<and> (c \<in> set countries \<and> a \<in> set aspectOrder
               \<longrightarrow> lookup2 scen c a
                     = Some (clamp (baseline_score baseline c a + summed_delta imps c a) 0 100))))"
  using aggregate_error aggregate_total aggregate_in_range by blast

text \<open>An impact with an unknown country or aspect is dropped: the result is what it is without it.\<close>

lemma aggregate_drops_unknown:
  "\<not> valid_reference countries r \<Longrightarrow>
     aggregate countries baseline (xs @ r # ys) = aggregate countries baseline (xs @ ys)"
  by (simp add: aggregate_def)

lemma table_of_cong:
  "(\<And>c a. c \<in> set countries \<Longrightarrow> a \<in> set aspectOrder \<Longrightarrow> f c a = g c a) \<Longrightarrow>
     table_of countries f = table_of countries g"
  by (simp add: table_of_def)

lemma valid_baseline_range:
  "valid_baseline countries baseline \<Longrightarrow> c \<in> set countries \<Longrightarrow> a \<in> set aspectOrder \<Longrightarrow>
     0 \<le> baseline_score baseline c a \<and> baseline_score baseline c a \<le> 100"
  by (simp add: valid_baseline_def list_all_iff)

lemma scenario_score_no_impacts:
  assumes "valid_baseline countries baseline"
  shows "table_of countries (scenario_score baseline [])
           = table_of countries (baseline_score baseline)"
proof (rule table_of_cong)
  fix c a
  assume "c \<in> set countries" "a \<in> set aspectOrder"
  with assms have "0 \<le> baseline_score baseline c a \<and> baseline_score baseline c a \<le> 100"
    by (rule valid_baseline_range)
  then show "scenario_score baseline [] c a = baseline_score baseline c a"
    by (simp add: scenario_score_def summed_delta_def records_for_def clamp_id)
qed

text \<open>
  C2. For every complete baseline table with scores in [0,100], \<open>aggregate\<close> applied to
  the empty impact list returns the baseline: its scenario scores are the baseline scores,
  and \<open>country_scores\<close> equals \<open>baseline_country_scores\<close> for every country.
\<close>

theorem empty_impacts_identity:
  assumes "valid_baseline countries baseline"
  shows "\<exists>r. aggregate countries baseline [] = Inr r
           \<and> aspect_scores r = Some (table_of countries (baseline_score baseline))
           \<and> aspect_scores r = baseline_aspect_scores r
           \<and> country_scores r = baseline_country_scores r"
proof -
  from assms have "complete_baseline countries baseline"
    by (simp add: valid_baseline_def)
  then obtain r where r: "aggregate countries baseline [] = Inr r"
    using aggregate_total by blast
  from aggregate_scores [OF r] scenario_score_no_impacts [OF assms]
  have "aspect_scores r = Some (table_of countries (baseline_score baseline))"
    "aspect_scores r = baseline_aspect_scores r"
    "country_scores r = baseline_country_scores r"
    by simp_all
  with r show ?thesis by blast
qed

subsection \<open>An empty headline\<close>

lemma analyze_validation:
  "analyze countries baseline interpret headline = Inl ValidationError \<longleftrightarrow> trim headline = []"
  using aggregate_error [of countries baseline]
  by (auto simp add: analyze_def)

lemma handleSendMessage_blank:
  "trim (input st) = [] \<Longrightarrow> handleSendMessage userMessageId pendingId now st = st"
  by (simp add: handleSendMessage_def)

lemma handleSendMessage_sends:
  "trim (input st) \<noteq> [] \<Longrightarrow>
     messages (handleSendMessage userMessageId pendingId now st)
       = messages st @ [userMessage userMessageId (trim (input st)),
                        pendingMessage pendingId now (trim (input st))]
     \<and> calls (handleSendMessage userMessageId pendingId now st)
       = calls st @ [AddChatMessage (trim (input st)) (lit ''user'') (trim (input st)) None,
                     AnalyzeScenario (trim (input st))]"
  by (simp add: handleSendMessage_def Let_def runScenario_def)

text \<open>
  C6. The analyze operation fails with \<open>ValidationError\<close> exactly when the headline is
  empty after trimming. Correspondingly, when the trimmed input is empty the send handler
  of the Chatbot returns with the state as it was: no user message is added and no request
  is sent. When it is not empty, the handler appends the user message and the pending
  message and sends the history entry and the analysis request.
\<close>

theorem blank_headline_rejected:
  "(analyze countries baseline interpret headline = Inl ValidationError
      \<longleftrightarrow> trim headline = [])
   \<and> (trim (input st) = []
      \<longrightarrow> handleSendMessage userMessageId pendingId now st = st
          \<and> messages (handleSendMessage userMessageId pendingId now st) = messages st
          \<and> calls (handleSendMessage userMessageId pendingId now st) = calls st)
   \<and> (trim (input st) \<noteq> []
      \<longrightarrow> messages (handleSendMessage userMessageId pendingId now st)
            = messages st @ [userMessage userMessageId (trim (input st)),
                             pendingMessage pendingId now (trim (input st))]
          \<and> calls (handleSendMessage userMessageId pendingId now st)
            = calls st @ [AddChatMessage (trim (input st)) (lit ''user'') (trim (input st)) None,
                          AnalyzeScenario (trim (input st))])"
  using analyze_validation handleSendMessage_blank handleSendMessage_sends by auto


subsection \<open>The aggregator at the example tables\<close>

lemma baseline_score_table_of:
  "c \<in> set countries \<Longrightarrow> a \<in> set aspectOrder \<Longrightarrow>
     baseline_score (table_of countries f) c a = f c a"
  by (simp add: baseline_score_def lookup2_table_of)

lemma valid_baseline_table_of:
  assumes "\<And>c a. 0 \<le> f c a \<and> f c a \<le> 100"
  shows "valid_baseline countries (table_of countries f)"
  unfolding valid_baseline_def complete_baseline_def list_all_iff
  using assms by (simp add: lookup2_table_of baseline_score_table_of)

lemma example_baseline_valid: "valid_baseline example_countries example_baseline"
  unfolding example_baseline_def by (rule valid_baseline_table_of) simp

theorem scores_clamped_witness:
  "complete_baseline example_countries example_baseline
   \<and> (\<exists>r scen. aggregate example_countries example_baseline large_impacts = Inr r
         \<and> aspect_scores r = Some scen \<and> table_in_range scen
         \<and> lookup2 scen (lit ''India'') (lit ''Energy Security'') = Some 0
         \<and> lookup2 scen (lit ''India'') (lit ''Economic Stability'') = Some 100
         \<and> lookup2 scen (lit ''Japan'') (lit ''Energy Security'') = Some 100
         \<and> lookup2 scen (lit ''USA'') (lit ''Economic Stability'') = Some 55)"
proof -
  have c: "complete_baseline example_countries example_baseline"
    using example_baseline_valid by (simp add: valid_baseline_def)
  with scores_clamped [of example_countries example_baseline large_impacts]
  obtain r where r: "aggregate example_countries example_baseline large_impacts = Inr r"
    by blast
  have m: "lit ''India'' \<in> set example_countries" "lit ''Japan'' \<in> set example_countries"
    "lit ''USA'' \<in> set example_countries" "lit ''Energy Security'' \<in> set aspectOrder"
    "lit ''Economic Stability'' \<in> set aspectOrder"
    by (simp_all add: example_countries_def aspectOrder_def)
  have b: "baseline_score example_baseline (lit ''India'') (lit ''Energy Security'') = 70"
    "baseline_score example_baseline (lit ''India'') (lit ''Economic Stability'') = 70"
    "baseline_score example_baseline (lit ''Japan'') (lit ''Energy Security'') = 90"
    "baseline_score example_baseline (lit ''USA'') (lit ''Economic Stability'') = 70"
    unfolding example_baseline_def using m
    by (simp_all add: baseline_score_table_of lit_def)
  have s: "summed_delta large_impacts (lit ''India'') (lit ''Energy Security'') = -1000000"
    "summed_delta large_impacts (lit ''India'') (lit ''Economic Stability'') = 1000000"
    "summed_delta large_impacts (lit ''Japan'') (lit ''Energy Security'') = 20"
    "summed_delta large_impacts (lit ''USA'') (lit ''Economic Stability'') = -15"
    by (simp_all add: summed_delta_def records_for_def large_impacts_def mk_impact_def
        delta_or_zero_def lit_def)
  have v: "clamp (baseline_score example_baseline (lit ''India'') (lit ''Energy Security'')
             + summed_delta large_impacts (lit ''India'') (lit ''Energy Security'')) 0 100 = 0"
    "clamp (baseline_score example_baseline (lit ''India'') (lit ''Economic Stability'')
             + summed_delta large_impacts (lit ''India'') (lit ''Economic Stability'')) 0 100 = 100"
    "clamp (baseline_score example_baseline (lit ''Japan'') (lit ''Energy Security'')
             + summed_delta large_impacts (lit ''Japan'') (lit ''Energy Security'')) 0 100 = 100"
    "clamp (baseline_score example_baseline (lit ''USA'') (lit ''Economic Stability'')
             + summed_delta large_impacts (lit ''USA'') (lit ''Economic Stability'')) 0 100 = 55"
    unfolding b s by (simp_all add: clamp_def)
  from scores_clamped [of example_countries example_baseline large_impacts _ r
      "lit ''India''" "lit ''Energy Security''"]
    scores_clamped [of example_countries example_baseline large_impacts _ r
      "lit ''India''" "lit ''Economic Stability''"]
    scores_clamped [of example_countries example_baseline large_impacts _ r
      "lit ''Japan''" "lit ''Energy Security''"]
    scores_clamped [of example_countries example_baseline large_impacts _ r
      "lit ''USA''" "lit ''Economic Stability''"]
    r m
  have "\<exists>scen. aspect_scores r = Some scen \<and> table_in_range scen
         \<and> lookup2 scen (lit ''India'') (lit ''Energy Security'') = Some 0
         \<and> lookup2 scen (lit ''India'') (lit ''Economic Stability'') = Some 100
         \<and> lookup2 scen (lit ''Japan'') (lit ''Energy Security'') = Some 100
         \<and> lookup2 scen (lit ''USA'') (lit ''Economic Stability'') = Some 55"
    unfolding v by auto
  with c r show ?thesis by blast
qed

theorem empty_impacts_identity_witness:
  "valid_baseline example_countries example_baseline \<and> length example_countries = 10
   \<and> (\<exists>r. aggregate example_countries example_baseline [] = Inr r
         \<and> aspect_scores r = baseline_aspect_scores r
         \<and> country_scores r = baseline_country_scores r)"
proof -
  have "length example_countries = 10"
    by (simp add: example_countries_def)
  with example_baseline_valid empty_impacts_identity [OF example_baseline_valid]
  show ?thesis by blast
qed

theorem blank_headline_rejected_witness:
  "trim blank_input = []
   \<and> analyze example_countries example_baseline (\<lambda>headline. None) blank_input
       = Inl ValidationError
   \<and> handleSendMessage (createMessageId (lit ''1700000000000'') (lit ''8f3a''))
        (createMessageId (lit ''1700000000001'') (lit ''c41'')) 1700000000001
        (setInput blank_input initial_state)
       = setInput blank_input initial_state"
proof -
  have t: "trim blank_input = []"
    by code_simp
  then have "trim (input (setInput blank_input initial_state)) = []"
    by (simp add: setInput_def)
  with t blank_headline_rejected [of example_countries example_baseline "\<lambda>headline. None"
      blank_input "setInput blank_input initial_state"]
  show ?thesis by simp
qed

end
